theory Spec2Isabelle
  imports Complex_Main "HOL-Library.AList" "HOL-Library.Char_ord" "HOL-Library.List_Lexorder"
begin

section \<open>JavaScript values, objects and thrown errors\<close>

text \<open>
  The handlers work on duck-typed JavaScript objects (request bodies, Mongoose documents,
  decoded token payloads), so a document is an association list from property names to
  values. \<open>JJwt p k\<close> stands for the string that is the compact serialisation of a
  JSON Web Token with payload \<open>p\<close> signed with the secret \<open>k\<close>: the signing primitive
  (the jsonwebtoken package) is an external collaborator, modelled symbolically, so a
  signature verifies exactly when the secrets agree.
\<close>

text \<open>
  A string is the list of the bytes of its UTF-8 encoding, as a request body carries it.
\<close>

datatype jsval =
    JUndefined
  | JNull
  | JNum real
  | JStr string
  | JDate int
  | JJwt "(string \<times> jsval) list" string

type_synonym obj = "(string \<times> jsval) list"

text \<open>Property read \<open>o.k\<close>: a missing property reads as \<open>undefined\<close>.\<close>

definition obj_get :: "obj \<Rightarrow> string \<Rightarrow> jsval" where
  "obj_get ob k = (case map_of ob k of None \<Rightarrow> JUndefined | Some v \<Rightarrow> v)"

text \<open>Property write \<open>{...o, k: v}\<close>.\<close>

definition obj_set :: "string \<Rightarrow> jsval \<Rightarrow> obj \<Rightarrow> obj" where
  "obj_set k v ob = AList.update k v ob"

fun truthy :: "jsval \<Rightarrow> bool" where
  "truthy JUndefined = False"
| "truthy JNull = False"
| "truthy (JNum r) = (r \<noteq> 0)"
| "truthy (JStr s) = (s \<noteq> [])"
| "truthy (JDate t) = True"
| "truthy (JJwt p k) = True"

text \<open>The operator \<open>a || b\<close>.\<close>

definition js_or :: "jsval \<Rightarrow> jsval \<Rightarrow> jsval" where
  "js_or a b = (if truthy a then a else b)"

text \<open>
  What a handler throws: an \<open>ApiError(statusCode, message, errors)\<close> of the repository,
  or any other exception (a library's error, a \<open>TypeError\<close>), named by its kind.
\<close>

datatype failure = ApiError nat string "string list" | Thrown string

text \<open>A name between double quotes, as the messages of the libraries write it.\<close>

definition label :: "string \<Rightarrow> string" where
  "label k = CHR 0x22 # k @ [CHR 0x22]"

text \<open>
  Behaviour of libraries and of model files that are not part of the sources, taken as
  parameters: which strings cast to an ObjectId (Mongoose), how the \<open>ms\<close> package reads a
  time span such as \<open>1d\<close> (in seconds), Joi's coercion of strings to numbers and to dates,
  Joi's URI test, the validators of the Coupon model, MongoDB's
  \<open>$dateToString\<close> with format \<open>%Y-%m-%d\<close>, and JavaScript's rendering of a number or
  a date as a string.
\<close>

record lib =
  objectIdValid :: "string \<Rightarrow> bool"
  timespan :: "string \<Rightarrow> real option"
  toNumber :: "string \<Rightarrow> real option"
  toDate :: "string \<Rightarrow> int option"
  isUri :: "string \<Rightarrow> bool"
  couponValid :: "obj \<Rightarrow> bool"
  dateToString :: "int \<Rightarrow> string"
  jsToString :: "jsval \<Rightarrow> string"

section \<open>Token service\<close>

record env =
  ACCESS_TOKEN_SECRET :: "string option"
  REFRESH_TOKEN_SECRET :: "string option"
  ACCESS_TOKEN_EXPIRY :: "string option"
  REFRESH_TOKEN_EXPIRY :: "string option"

text \<open>\<open>process.env.X || dflt\<close>: an unset or empty variable gives the default.\<close>

definition env_or :: "string option \<Rightarrow> string \<Rightarrow> string" where
  "env_or v dflt = (case v of None \<Rightarrow> dflt | Some s \<Rightarrow> if s = [] then dflt else s)"

text \<open>JSON serialisation of a payload drops the properties whose value is \<open>undefined\<close>.\<close>

definition json_props :: "obj \<Rightarrow> obj" where
  "json_props ob = filter (\<lambda>kv. snd kv \<noteq> JUndefined) ob"

text \<open>
  \<open>jwt.sign(payload, secret, {expiresIn})\<close> at time \<open>now\<close> (seconds). The registered
  claims \<open>iat\<close>, \<open>exp\<close> and \<open>nbf\<close> of the payload must be numbers when present, and
  \<open>exp\<close> must be absent since \<open>expiresIn\<close> is given; the token is issued at
  \<open>payload.iat || now\<close> and expires \<open>expiresIn\<close> later.
\<close>

definition number_or_absent :: "obj \<Rightarrow> string \<Rightarrow> bool" where
  "number_or_absent p c = (case obj_get p c of JUndefined \<Rightarrow> True | JNum x \<Rightarrow> True | _ \<Rightarrow> False)"

definition jwt_sign :: "lib \<Rightarrow> int \<Rightarrow> obj \<Rightarrow> string option \<Rightarrow> string \<Rightarrow> failure + jsval" where
  "jwt_sign L now payload secret expiresIn =
     (case secret of
        None \<Rightarrow> Inl (Thrown ''secretOrPrivateKey must have a value'')
      | Some k \<Rightarrow>
          if k = [] then Inl (Thrown ''secretOrPrivateKey must have a value'')
          else if \<not> number_or_absent payload ''iat''
          then Inl (Thrown (label ''iat'' @ '' should be a number of seconds''))
          else if \<not> number_or_absent payload ''exp''
          then Inl (Thrown (label ''exp'' @ '' should be a number of seconds''))
          else if \<not> number_or_absent payload ''nbf''
          then Inl (Thrown (label ''nbf'' @ '' should be a number of seconds''))
          else if obj_get payload ''exp'' \<noteq> JUndefined
          then Inl (Thrown (''Bad '' @ label ''options.expiresIn'' @ '' option the payload already has an '' @
                            label ''exp'' @ '' property''))
          else (case timespan L expiresIn of
                  None \<Rightarrow>
                    Inl (Thrown (label ''expiresIn'' @
                      '' should be a number of seconds or string representing a timespan''))
                | Some ttl \<Rightarrow>
                    (let issued =
                           (case obj_get payload ''iat'' of
                              JNum i \<Rightarrow> if i = 0 then real_of_int now else i
                            | _ \<Rightarrow> real_of_int now)
                     in Inr (JJwt (obj_set ''exp'' (JNum (issued + ttl))
                                     (obj_set ''iat'' (JNum issued) (json_props payload))) k))))"

text \<open>
  \<open>jwt.verify(token, secret)\<close> at time \<open>now\<close> (seconds): returns the decoded payload,
  or throws on a malformed token, a wrong signature, a claim \<open>nbf\<close> or \<open>exp\<close> that is
  not a number, a token not yet active or an expired token.
\<close>

definition jwt_verify :: "int \<Rightarrow> jsval \<Rightarrow> string option \<Rightarrow> failure + obj" where
  "jwt_verify now token secret =
     (case token of
        JJwt p k \<Rightarrow>
          (case secret of
             None \<Rightarrow> Inl (Thrown ''JsonWebTokenError: secret or public key must be provided'')
           | Some s \<Rightarrow>
               if s = [] then Inl (Thrown ''JsonWebTokenError: secret or public key must be provided'')
               else if k \<noteq> s then Inl (Thrown ''JsonWebTokenError: invalid signature'')
               else if \<not> number_or_absent p ''nbf''
               then Inl (Thrown ''JsonWebTokenError: invalid nbf value'')
               else if (case obj_get p ''nbf'' of JNum n \<Rightarrow> real_of_int now < n | _ \<Rightarrow> False)
               then Inl (Thrown ''NotBeforeError: jwt not active'')
               else if \<not> number_or_absent p ''exp''
               then Inl (Thrown ''JsonWebTokenError: invalid exp value'')
               else if (case obj_get p ''exp'' of JNum e \<Rightarrow> e \<le> real_of_int now | _ \<Rightarrow> False)
               then Inl (Thrown ''TokenExpiredError: jwt expired'')
               else Inr p)
      | JStr s \<Rightarrow> Inl (Thrown ''JsonWebTokenError: jwt malformed'')
      | _ \<Rightarrow> Inl (Thrown ''JsonWebTokenError: jwt must be a string''))"

text \<open>
  The methods of the user model (\<open>this\<close> is the user document).
\<close>

definition generateAccessToken :: "lib \<Rightarrow> env \<Rightarrow> int \<Rightarrow> obj \<Rightarrow> failure + jsval" where
  "generateAccessToken L E iat this =
     jwt_sign L iat
       [(''id'', obj_get this ''_id''), (''email'', obj_get this ''email'')]
       (ACCESS_TOKEN_SECRET E)
       (env_or (ACCESS_TOKEN_EXPIRY E) ''1d'')"

definition generateRefreshToken :: "lib \<Rightarrow> env \<Rightarrow> int \<Rightarrow> obj \<Rightarrow> failure + jsval" where
  "generateRefreshToken L E iat this =
     jwt_sign L iat
       [(''id'', obj_get this ''_id'')]
       (REFRESH_TOKEN_SECRET E)
       (env_or (REFRESH_TOKEN_EXPIRY E) ''30d'')"

text \<open>What the user model signs, once decoded.\<close>

definition access_payload :: "obj \<Rightarrow> int \<Rightarrow> real \<Rightarrow> obj" where
  "access_payload u iat ttl =
     json_props [(''id'', obj_get u ''_id''), (''email'', obj_get u ''email'')] @
       [(''iat'', JNum (real_of_int iat)), (''exp'', JNum (real_of_int iat + ttl))]"

section \<open>Document store\<close>

text \<open>
  A collection is the list of its documents. \<open>Model.findById(id)\<close>: Mongoose turns
  \<open>undefined\<close> into the filter \<open>_id: null\<close>, which matches nothing; a string is cast to
  an ObjectId, and a value that does not cast throws a \<open>CastError\<close>.
\<close>

definition findById :: "lib \<Rightarrow> obj list \<Rightarrow> jsval \<Rightarrow> failure + obj option" where
  "findById L coll v =
     (case v of
        JUndefined \<Rightarrow> Inr None
      | JNull \<Rightarrow> Inr None
      | JStr s \<Rightarrow>
          if objectIdValid L s then Inr (find (\<lambda>d. obj_get d ''_id'' = JStr s) coll)
          else Inl (Thrown ''CastError'')
      | _ \<Rightarrow> Inl (Thrown ''CastError''))"

text \<open>The projection \<open>.select("-refreshToken")\<close>.\<close>

definition select_minus :: "string \<Rightarrow> obj \<Rightarrow> obj" where
  "select_minus k d = AList.delete k d"

section \<open>Auth middleware\<close>

text \<open>
  The parts of a request the handlers read. The Authorization header is kept as the list
  of its fields between single spaces, which is what \<open>authHeader.split(" ")\<close> computes;
  \<open>None\<close> is a request without the header.
\<close>

record request =
  authorization :: "jsval list option"
  cookies :: "obj option"
  x_refresh_token :: jsval
  params_id :: string
  body :: obj
  file_upload :: "obj option"
  venture :: "obj option"
  admin :: "obj option"
  user :: "obj option"

text \<open>
  \<open>authHeader?.startsWith("Bearer ") ? authHeader.split(" ")[1] : null\<close>: the header
  starts with \<open>Bearer\<close> and a space exactly when its first field is \<open>Bearer\<close> and a
  second field exists.
\<close>

definition bearer_token :: "jsval list option \<Rightarrow> jsval" where
  "bearer_token h =
     (case h of
        Some (scheme # tok # rest) \<Rightarrow> if scheme = JStr ''Bearer'' then tok else JNull
      | _ \<Rightarrow> JNull)"

text \<open>The body of the \<open>try\<close> block of \<open>adminverifyJWT\<close>.\<close>

definition adminverifyJWT_try :: "lib \<Rightarrow> env \<Rightarrow> int \<Rightarrow> obj list \<Rightarrow> jsval \<Rightarrow> failure + obj" where
  "adminverifyJWT_try L E now admins token =
     (case jwt_verify now token (ACCESS_TOKEN_SECRET E) of
        Inl e \<Rightarrow> Inl e
      | Inr decoded \<Rightarrow>
          (case findById L admins (obj_get decoded ''_id'') of
             Inl e \<Rightarrow> Inl e
           | Inr None \<Rightarrow> Inl (ApiError 404 ''Admin not found'' [])
           | Inr (Some a) \<Rightarrow> Inr (select_minus ''refreshToken'' a)))"

definition adminverifyJWT :: "lib \<Rightarrow> env \<Rightarrow> int \<Rightarrow> obj list \<Rightarrow> request \<Rightarrow> failure + request" where
  "adminverifyJWT L E now admins req =
     (let token = bearer_token (authorization req) in
      if \<not> truthy token then Inl (ApiError 401 ''Access token missing'' [])
      else (case adminverifyJWT_try L E now admins token of
              Inl e \<Rightarrow> Inl (ApiError 401 ''Invalid or expired access token'' [])
            | Inr a \<Rightarrow> Inr (req\<lparr>admin := Some a\<rparr>)))"

text \<open>The body of the \<open>try\<close> block of \<open>userverifyJWT\<close>.\<close>

definition userverifyJWT_try :: "lib \<Rightarrow> env \<Rightarrow> int \<Rightarrow> obj list \<Rightarrow> jsval \<Rightarrow> failure + obj" where
  "userverifyJWT_try L E now users token =
     (case jwt_verify now token (ACCESS_TOKEN_SECRET E) of
        Inl e \<Rightarrow> Inl e
      | Inr decoded \<Rightarrow>
          (case findById L users (obj_get decoded ''_id'') of
             Inl e \<Rightarrow> Inl e
           | Inr None \<Rightarrow> Inl (ApiError 404 ''User not found'' [])
           | Inr (Some u) \<Rightarrow> Inr (select_minus ''refreshToken'' u)))"

definition userverifyJWT :: "lib \<Rightarrow> env \<Rightarrow> int \<Rightarrow> obj list \<Rightarrow> request \<Rightarrow> failure + request" where
  "userverifyJWT L E now users req =
     (let token = bearer_token (authorization req) in
      if \<not> truthy token then Inl (ApiError 401 ''Access token missing'' [])
      else (case userverifyJWT_try L E now users token of
              Inl e \<Rightarrow> Inl (ApiError 401 ''Invalid or expired access token'' [])
            | Inr u \<Rightarrow> Inr (req\<lparr>user := Some u\<rparr>)))"

text \<open>
  The refresh-flow middleware \<open>verifyRefreshToken\<close>, once over the Admin collection and
  once over the User collection. The token is
  \<open>req.cookies?.refreshToken || req.header("x-refresh-token")\<close>.
\<close>

definition refresh_token_of :: "request \<Rightarrow> jsval" where
  "refresh_token_of req =
     js_or (case cookies req of None \<Rightarrow> JUndefined | Some c \<Rightarrow> obj_get c ''refreshToken'')
           (x_refresh_token req)"

definition verifyRefreshToken_try :: "lib \<Rightarrow> env \<Rightarrow> int \<Rightarrow> obj list \<Rightarrow> jsval \<Rightarrow> failure + obj" where
  "verifyRefreshToken_try L E now principals refreshToken =
     (case jwt_verify now refreshToken (REFRESH_TOKEN_SECRET E) of
        Inl e \<Rightarrow> Inl e
      | Inr decoded \<Rightarrow>
          (case findById L principals (obj_get decoded ''_id'') of
             Inl e \<Rightarrow> Inl e
           | Inr None \<Rightarrow> Inl (ApiError 403 ''Invalid refresh token'' [])
           | Inr (Some p) \<Rightarrow>
               if obj_get p ''refreshToken'' \<noteq> refreshToken
               then Inl (ApiError 403 ''Invalid refresh token'' [])
               else Inr p))"

definition verifyRefreshToken_admin :: "lib \<Rightarrow> env \<Rightarrow> int \<Rightarrow> obj list \<Rightarrow> request \<Rightarrow> failure + request" where
  "verifyRefreshToken_admin L E now admins req =
     (let refreshToken = refresh_token_of req in
      if \<not> truthy refreshToken then Inl (ApiError 401 ''Refresh token missing'' [])
      else (case verifyRefreshToken_try L E now admins refreshToken of
              Inl e \<Rightarrow> Inl (ApiError 401 ''Refresh token expired or invalid'' [])
            | Inr a \<Rightarrow> Inr (req\<lparr>admin := Some a\<rparr>)))"

definition verifyRefreshToken_user :: "lib \<Rightarrow> env \<Rightarrow> int \<Rightarrow> obj list \<Rightarrow> request \<Rightarrow> failure + request" where
  "verifyRefreshToken_user L E now users req =
     (let refreshToken = refresh_token_of req in
      if \<not> truthy refreshToken then Inl (ApiError 401 ''Refresh token missing'' [])
      else (case verifyRefreshToken_try L E now users refreshToken of
              Inl e \<Rightarrow> Inl (ApiError 401 ''Refresh token expired or invalid'' [])
            | Inr u \<Rightarrow> Inr (req\<lparr>user := Some u\<rparr>)))"

section \<open>Joi schemas\<close>

text \<open>
  The schemas of the coupon controller use three Joi types and six rules. Validation runs
  with \<open>abortEarly: false\<close> and Joi's default \<open>convert: true\<close>.
\<close>

datatype joi_type = JoiString | JoiNumber | JoiDate

datatype joi_rule = Trim | Uri | MinLen nat | Alphanum | MinNum nat | MaxNum nat

record joi_key =
  key_name :: string
  key_type :: joi_type
  key_rules :: "joi_rule list"
  key_required :: bool
  key_allow :: "jsval list"

record joi_object =
  schema_keys :: "joi_key list"
  allow_unknown :: bool

definition couponSchema :: joi_object where
  "couponSchema = \<lparr> schema_keys =
      [ \<lparr>key_name = ''couponTitle'', key_type = JoiString, key_rules = [Trim], key_required = True, key_allow = []\<rparr>,
        \<lparr>key_name = ''logo'', key_type = JoiString, key_rules = [Uri], key_required = False, key_allow = [JNull, JStr []]\<rparr>,
        \<lparr>key_name = ''offerTitle'', key_type = JoiString, key_rules = [Trim], key_required = True, key_allow = []\<rparr>,
        \<lparr>key_name = ''offerDescription'', key_type = JoiString, key_rules = [Trim], key_required = True, key_allow = []\<rparr>,
        \<lparr>key_name = ''termsAndConditions'', key_type = JoiString, key_rules = [Trim], key_required = True, key_allow = []\<rparr>,
        \<lparr>key_name = ''expiryDate'', key_type = JoiDate, key_rules = [], key_required = True, key_allow = []\<rparr>,
        \<lparr>key_name = ''offerDetails'', key_type = JoiString, key_rules = [], key_required = False, key_allow = [JStr []]\<rparr>,
        \<lparr>key_name = ''aboutCompany'', key_type = JoiString, key_rules = [], key_required = False, key_allow = [JStr []]\<rparr>,
        \<lparr>key_name = ''claimPercentage'', key_type = JoiNumber, key_rules = [MinNum 0, MaxNum 100], key_required = False, key_allow = []\<rparr>,
        \<lparr>key_name = ''createdBy'', key_type = JoiString, key_rules = [], key_required = False, key_allow = []\<rparr> ],
      allow_unknown = True \<rparr>"

definition editCouponSchema :: joi_object where
  "editCouponSchema = \<lparr> schema_keys =
      [ \<lparr>key_name = ''couponTitle'', key_type = JoiString, key_rules = [MinLen 3], key_required = False, key_allow = []\<rparr>,
        \<lparr>key_name = ''couponCode'', key_type = JoiString, key_rules = [Alphanum, MinLen 3], key_required = False, key_allow = []\<rparr>,
        \<lparr>key_name = ''discountType'', key_type = JoiString, key_rules = [], key_required = False, key_allow = []\<rparr>,
        \<lparr>key_name = ''discountValue'', key_type = JoiNumber, key_rules = [MinNum 0], key_required = False, key_allow = []\<rparr>,
        \<lparr>key_name = ''expiryDate'', key_type = JoiDate, key_rules = [], key_required = False, key_allow = []\<rparr>,
        \<lparr>key_name = ''logo'', key_type = JoiString, key_rules = [], key_required = False, key_allow = [JNull, JStr []]\<rparr>,
        \<lparr>key_name = ''offerTitle'', key_type = JoiString, key_rules = [], key_required = False, key_allow = []\<rparr>,
        \<lparr>key_name = ''offerDescription'', key_type = JoiString, key_rules = [], key_required = False, key_allow = []\<rparr>,
        \<lparr>key_name = ''termsAndConditions'', key_type = JoiString, key_rules = [], key_required = False, key_allow = []\<rparr>,
        \<lparr>key_name = ''offerDetails'', key_type = JoiString, key_rules = [], key_required = False, key_allow = []\<rparr>,
        \<lparr>key_name = ''aboutCompany'', key_type = JoiString, key_rules = [], key_required = False, key_allow = []\<rparr> ],
      allow_unknown = False \<rparr>"

function show_nat :: "nat \<Rightarrow> string" where
  "show_nat n =
     (if n < 10 then [char_of (48 + n)] else show_nat (n div 10) @ [char_of (48 + n mod 10)])"
  by pat_completeness auto
termination
  by (relation "measure id") auto

declare show_nat.simps [simp del]

text \<open>
  The white space \<open>String.prototype.trim\<close> strips, each code point in UTF-8: tab, line
  feed, vertical tab, form feed, carriage return, space, U+00A0, U+1680, U+2000 to
  U+200A, U+2028, U+2029, U+202F, U+205F, U+3000 and U+FEFF.
\<close>

definition js_spaces :: "string list" where
  "js_spaces =
     [[CHR 0x09], [CHR 0x0A], [CHR 0x0B], [CHR 0x0C], [CHR 0x0D], [CHR 0x20],
      [CHR 0xC2, CHR 0xA0], [CHR 0xE1, CHR 0x9A, CHR 0x80],
      [CHR 0xE2, CHR 0x80, CHR 0x80], [CHR 0xE2, CHR 0x80, CHR 0x81],
      [CHR 0xE2, CHR 0x80, CHR 0x82], [CHR 0xE2, CHR 0x80, CHR 0x83],
      [CHR 0xE2, CHR 0x80, CHR 0x84], [CHR 0xE2, CHR 0x80, CHR 0x85],
      [CHR 0xE2, CHR 0x80, CHR 0x86], [CHR 0xE2, CHR 0x80, CHR 0x87],
      [CHR 0xE2, CHR 0x80, CHR 0x88], [CHR 0xE2, CHR 0x80, CHR 0x89],
      [CHR 0xE2, CHR 0x80, CHR 0x8A], [CHR 0xE2, CHR 0x80, CHR 0xA8],
      [CHR 0xE2, CHR 0x80, CHR 0xA9], [CHR 0xE2, CHR 0x80, CHR 0xAF],
      [CHR 0xE2, CHR 0x81, CHR 0x9F], [CHR 0xE3, CHR 0x80, CHR 0x80],
      [CHR 0xEF, CHR 0xBB, CHR 0xBF]]"

text \<open>The string without the words of \<open>ws\<close> it starts with.\<close>

function strip_leading :: "string list \<Rightarrow> string \<Rightarrow> string" where
  "strip_leading ws s =
     (case find (\<lambda>w. w \<noteq> [] \<and> take (length w) s = w) ws of
        None \<Rightarrow> s
      | Some w \<Rightarrow> strip_leading ws (drop (length w) s))"
  by pat_completeness auto
termination
proof (relation "measure (\<lambda>p. length (snd p))")
  show "wf (measure (\<lambda>p. length (snd p)))" by simp
next
  fix ws :: "string list" and s w :: string
  assume "find (\<lambda>w. w \<noteq> [] \<and> take (length w) s = w) ws = Some w"
  then have "w \<noteq> []" and "take (length w) s = w"
    by (auto simp: find_Some_iff)
  then have "s \<noteq> []" by auto
  with \<open>w \<noteq> []\<close> show "((ws, drop (length w) s), (ws, s)) \<in> measure (\<lambda>p. length (snd p))"
    by simp
qed

declare strip_leading.simps [simp del]

definition trim :: "string \<Rightarrow> string" where
  "trim s = rev (strip_leading (map rev js_spaces) (rev (strip_leading js_spaces s)))"

text \<open>
  The \<open>length\<close> of a JavaScript string counts UTF-16 code units: one for each code point
  of one to three bytes, two for each code point of four bytes.
\<close>

definition js_length :: "string \<Rightarrow> nat" where
  "js_length s =
     sum_list (map (\<lambda>c. let n = (of_char c :: nat)
                         in if n < 128 then 1 else if n < 192 then 0 else if n < 240 then 1 else 2) s)"

definition is_alnum :: "char \<Rightarrow> bool" where
  "is_alnum c =
     (let n = (of_char c :: nat)
      in (48 \<le> n \<and> n \<le> 57) \<or> (65 \<le> n \<and> n \<le> 90) \<or> (97 \<le> n \<and> n \<le> 122))"

text \<open>
  Type coercion, the first step of validating a value: \<open>trim()\<close> trims a string, a
  number schema reads a numeric string, a date schema reads a date string or a number of
  milliseconds (truncated to a whole number, as \<open>new Date(x)\<close> does).
\<close>

definition coerce :: "lib \<Rightarrow> joi_key \<Rightarrow> jsval \<Rightarrow> jsval" where
  "coerce L K v =
     (case key_type K of
        JoiString \<Rightarrow>
          (case v of JStr s \<Rightarrow> if Trim \<in> set (key_rules K) then JStr (trim s) else v | _ \<Rightarrow> v)
      | JoiNumber \<Rightarrow>
          (case v of
             JStr s \<Rightarrow> (case toNumber L s of Some r \<Rightarrow> JNum r | None \<Rightarrow> v)
           | _ \<Rightarrow> v)
      | JoiDate \<Rightarrow>
          (case v of
             JStr s \<Rightarrow> (case toDate L s of Some t \<Rightarrow> JDate t | None \<Rightarrow> v)
           | JNum r \<Rightarrow>
               if \<bar>r\<bar> \<le> 8640000000000000 then JDate (if 0 \<le> r then \<lfloor>r\<rfloor> else \<lceil>r\<rceil>) else v
           | _ \<Rightarrow> v))"

text \<open>The check of the base type; when it fails, the rules are not run.\<close>

definition base_errors :: "joi_key \<Rightarrow> jsval \<Rightarrow> string list" where
  "base_errors K v =
     (case key_type K of
        JoiString \<Rightarrow>
          (case v of
             JStr s \<Rightarrow> if s = [] then [label (key_name K) @ '' is not allowed to be empty''] else []
           | JJwt p k \<Rightarrow> []
           | _ \<Rightarrow> [label (key_name K) @ '' must be a string''])
      | JoiNumber \<Rightarrow>
          (case v of
             JNum r \<Rightarrow>
               if 9007199254740991 < \<bar>r\<bar> then [label (key_name K) @ '' must be a safe number'']
               else []
           | _ \<Rightarrow> [label (key_name K) @ '' must be a number''])
      | JoiDate \<Rightarrow>
          (case v of
             JDate t \<Rightarrow> []
           | _ \<Rightarrow> [label (key_name K) @ '' must be a valid date'']))"

text \<open>One rule on a value of the right base type; every failing rule reports.\<close>

definition rule_errors :: "lib \<Rightarrow> string \<Rightarrow> joi_rule \<Rightarrow> jsval \<Rightarrow> string list" where
  "rule_errors L k r v =
     (case r of
        Trim \<Rightarrow> []
      | Uri \<Rightarrow>
          (case v of
             JStr s \<Rightarrow> if isUri L s then [] else [label k @ '' must be a valid uri'']
           | _ \<Rightarrow> [label k @ '' must be a valid uri''])
      | MinLen n \<Rightarrow>
          (case v of
             JStr s \<Rightarrow>
               if js_length s < n
               then [label k @ '' length must be at least '' @ show_nat n @ '' characters long'']
               else []
           | _ \<Rightarrow> [])
      | Alphanum \<Rightarrow>
          (case v of
             JStr s \<Rightarrow>
               if list_all is_alnum s then []
               else [label k @ '' must only contain alpha-numeric characters'']
           | _ \<Rightarrow> [label k @ '' must only contain alpha-numeric characters''])
      | MinNum m \<Rightarrow>
          (case v of
             JNum x \<Rightarrow>
               if x < real m then [label k @ '' must be greater than or equal to '' @ show_nat m]
               else []
           | _ \<Rightarrow> [])
      | MaxNum m \<Rightarrow>
          (case v of
             JNum x \<Rightarrow>
               if real m < x then [label k @ '' must be less than or equal to '' @ show_nat m]
               else []
           | _ \<Rightarrow> []))"

text \<open>
  Validation of the value found under one key: coercion, presence, allowed values, base
  type, rules. The result is the messages and the converted value.
\<close>

definition validate_key :: "lib \<Rightarrow> joi_key \<Rightarrow> jsval \<Rightarrow> string list \<times> jsval" where
  "validate_key L K v =
     (let c = coerce L K v in
      if c = JUndefined
      then (if key_required K then [label (key_name K) @ '' is required''] else [], c)
      else if c \<in> set (key_allow K) then ([], c)
      else if base_errors K c \<noteq> [] then (base_errors K c, c)
      else (concat (map (\<lambda>r. rule_errors L (key_name K) r c) (key_rules K)), c))"

text \<open>
  \<open>schema.validate(data, { abortEarly: false })\<close>: the messages of all keys in the
  order of the schema, then one message for each key the schema does not know unless
  \<open>unknown(true)\<close>; and the converted object.
\<close>

definition joi_validate :: "lib \<Rightarrow> joi_object \<Rightarrow> obj \<Rightarrow> string list \<times> obj" where
  "joi_validate L S data =
     (concat (map (\<lambda>K. fst (validate_key L K (obj_get data (key_name K)))) (schema_keys S)) @
      (if allow_unknown S then []
       else map (\<lambda>k. label k @ '' is not allowed'')
              (filter (\<lambda>k. k \<notin> set (map key_name (schema_keys S))) (map fst data))),
      map (\<lambda>kv. case find (\<lambda>K. key_name K = fst kv) (schema_keys S) of
                   None \<Rightarrow> kv
                 | Some K \<Rightarrow> (fst kv, snd (validate_key L K (snd kv)))) data)"

text \<open>The messages one key of a schema contributes for an object.\<close>

definition key_messages :: "lib \<Rightarrow> obj \<Rightarrow> joi_key \<Rightarrow> string list" where
  "key_messages L data K = fst (validate_key L K (obj_get data (key_name K)))"

text \<open>The field a message names: what stands between its first two double quotes.\<close>

definition message_field :: "string \<Rightarrow> string" where
  "message_field m = takeWhile (\<lambda>c. c \<noteq> CHR 0x22) (drop 1 m)"

text \<open>
  The constraints on the fields of a coupon to create, as the spec and the schema word
  them, and so what it means for an input to violate a field:
  \<^item> the title, the offer title, the offer description and the terms are required: each
    must be a string that is not empty once trimmed;
  \<^item> the expiry date is required and must be a date: a date, a string that reads as a
    date, or a number of milliseconds in the range of dates;
  \<^item> the logo, when given and neither \<open>null\<close> nor empty, must be a string that is a URI;
  \<^item> the offer details and the about-company text, when given, must be strings;
  \<^item> the claim percentage, when given, must be a number, or a string that reads as one,
    from 0 to 100;
  \<^item> the creator, when given, must be a string that is not empty.
\<close>

definition coupon_fields :: "string list" where
  "coupon_fields =
     [''couponTitle'', ''logo'', ''offerTitle'', ''offerDescription'', ''termsAndConditions'',
      ''expiryDate'', ''offerDetails'', ''aboutCompany'', ''claimPercentage'', ''createdBy'']"

definition spec_violates :: "lib \<Rightarrow> obj \<Rightarrow> string \<Rightarrow> bool" where
  "spec_violates L data f =
     (let v = obj_get data f in
      if f \<in> set [''couponTitle'', ''offerTitle'', ''offerDescription'', ''termsAndConditions'']
      then (case v of JStr s \<Rightarrow> trim s = [] | JJwt p k \<Rightarrow> False | _ \<Rightarrow> True)
      else if f = ''expiryDate''
      then (case v of
              JDate t \<Rightarrow> False
            | JStr s \<Rightarrow> toDate L s = None
            | JNum r \<Rightarrow> 8640000000000000 < \<bar>r\<bar>
            | _ \<Rightarrow> True)
      else if f = ''logo''
      then (case v of
              JUndefined \<Rightarrow> False
            | JNull \<Rightarrow> False
            | JStr s \<Rightarrow> s \<noteq> [] \<and> \<not> isUri L s
            | _ \<Rightarrow> True)
      else if f \<in> set [''offerDetails'', ''aboutCompany'']
      then (case v of JUndefined \<Rightarrow> False | JStr s \<Rightarrow> False | JJwt p k \<Rightarrow> False | _ \<Rightarrow> True)
      else if f = ''claimPercentage''
      then (case v of
              JUndefined \<Rightarrow> False
            | JNum r \<Rightarrow> r < 0 \<or> 100 < r
            | JStr s \<Rightarrow> (case toNumber L s of None \<Rightarrow> True | Some r \<Rightarrow> r < 0 \<or> 100 < r)
            | _ \<Rightarrow> True)
      else if f = ''createdBy''
      then (case v of JUndefined \<Rightarrow> False | JStr s \<Rightarrow> s = [] | JJwt p k \<Rightarrow> False | _ \<Rightarrow> True)
      else False)"

definition spec_violated_fields :: "lib \<Rightarrow> obj \<Rightarrow> string list" where
  "spec_violated_fields L data = filter (spec_violates L data) coupon_fields"

text \<open>
  A key of a schema reports as those constraints say: it contributes one message, naming
  its field, when the input violates the field, and none otherwise.
\<close>

definition reports_as_spec :: "lib \<Rightarrow> obj \<Rightarrow> joi_key \<Rightarrow> bool" where
  "reports_as_spec L data K =
     (map message_field (key_messages L data K) =
        (if spec_violates L data (key_name K) then [key_name K] else []))"

section \<open>Coupon lifecycle manager\<close>

text \<open>The success envelope \<open>new ApiResponse(statusCode, data, message)\<close>.\<close>

datatype 'a response = ApiResponse nat 'a string

text \<open>
  Modelled from the spec: the Coupon model (\<open>coupon.model.js\<close>) is not among the
  sources. By the spec, create persists a new record with status \<open>active\<close>, and unknown
  extra fields of the input are tolerated and passed through: the new document holds
  every defined property of the validated object, over a status \<open>active\<close>, a view counter
  of zero and the creation time (the listings read \<open>viewCount\<close> and sort by
  \<open>createdAt\<close>), and over the \<open>_id\<close> the driver generates.
\<close>

text \<open>Assignment of the defined properties of \<open>v\<close>.\<close>

definition assign_defined :: "obj \<Rightarrow> obj \<Rightarrow> obj" where
  "assign_defined v d =
     foldl (\<lambda>acc kv. if snd kv \<noteq> JUndefined then obj_set (fst kv) (snd kv) acc else acc) d v"

definition new_Coupon :: "string \<Rightarrow> int \<Rightarrow> obj \<Rightarrow> obj" where
  "new_Coupon newId now v =
     assign_defined v
       [(''_id'', JStr newId),
        (''status'', JStr ''active''),
        (''viewCount'', JNum 0),
        (''createdAt'', JDate now)]"

text \<open>
  \<open>doc.save()\<close> of a new document: the validators of the model run, the \<open>_id\<close> must
  cast to an ObjectId and must not be in the collection yet.
\<close>

definition save_new :: "lib \<Rightarrow> obj list \<Rightarrow> obj \<Rightarrow> failure + obj list" where
  "save_new L coll d =
     (if \<not> couponValid L d then Inl (Thrown ''ValidationError'')
      else (case obj_get d ''_id'' of
              JStr i \<Rightarrow>
                if \<not> objectIdValid L i then Inl (Thrown ''ValidationError'')
                else if find (\<lambda>x. obj_get x ''_id'' = JStr i) coll \<noteq> None
                then Inl (Thrown ''MongoServerError: E11000 duplicate key'')
                else Inr (coll @ [d])
            | _ \<Rightarrow> Inl (Thrown ''ValidationError'')))"

text \<open>The document with the given \<open>_id\<close> (the first, as \<open>findById\<close> reads it) replaced.\<close>

fun replace_by_id :: "jsval \<Rightarrow> obj \<Rightarrow> obj list \<Rightarrow> obj list" where
  "replace_by_id i d [] = []"
| "replace_by_id i d (x # xs) =
     (if obj_get x ''_id'' = i then d # xs else x # replace_by_id i d xs)"


text \<open>\<open>x.toString()\<close>: a \<open>TypeError\<close> on \<open>undefined\<close> and \<open>null\<close>.\<close>

definition js_toString :: "lib \<Rightarrow> jsval \<Rightarrow> failure + jsval" where
  "js_toString L v =
     (case v of
        JUndefined \<Rightarrow> Inl (Thrown ''TypeError'')
      | JNull \<Rightarrow> Inl (Thrown ''TypeError'')
      | JStr s \<Rightarrow> Inr v
      | JJwt p k \<Rightarrow> Inr v
      | _ \<Rightarrow> Inr (JStr (jsToString L v)))"

text \<open>\<open>req.file ? req.file.path || req.file.location : dflt\<close>.\<close>

definition logo_of :: "request \<Rightarrow> jsval \<Rightarrow> jsval" where
  "logo_of req dflt =
     (case file_upload req of
        Some f \<Rightarrow> js_or (obj_get f ''path'') (obj_get f ''location'')
      | None \<Rightarrow> dflt)"

text \<open>
  The object \<open>createCoupon\<close> validates:
  \<open>{ ...req.body, logo: logoUrl, createdBy: ventureId.toString() }\<close>.
\<close>

definition form_data :: "request \<Rightarrow> jsval \<Rightarrow> obj" where
  "form_data req createdBy =
     obj_set ''createdBy'' createdBy (obj_set ''logo'' (logo_of req JNull) (body req))"

text \<open>
  Every handler returns what it answers or throws, and the collection after the call.
  \<open>createCoupon\<close> at time \<open>now\<close>; \<open>newId\<close> is the ObjectId the driver generates.
\<close>

definition createCoupon ::
  "lib \<Rightarrow> int \<Rightarrow> string \<Rightarrow> obj list \<Rightarrow> request \<Rightarrow> (failure + obj response) \<times> obj list" where
  "createCoupon L now newId coupons req =
     (let ventureId = (case venture req of None \<Rightarrow> JUndefined | Some v \<Rightarrow> obj_get v ''_id'')
      in case js_toString L ventureId of
           Inl e \<Rightarrow> (Inl e, coupons)
         | Inr createdBy \<Rightarrow>
             (let formData = form_data req createdBy;
                  res = joi_validate L couponSchema formData
              in if fst res \<noteq> [] then (Inl (ApiError 400 ''Validation error'' (fst res)), coupons)
                 else (let newCoupon = new_Coupon newId now (snd res)
                       in case save_new L coupons newCoupon of
                            Inl e \<Rightarrow> (Inl e, coupons)
                          | Inr coupons' \<Rightarrow>
                              (Inr (ApiResponse 201 newCoupon ''Coupon created successfully''),
                               coupons'))))"

definition editCoupon ::
  "lib \<Rightarrow> obj list \<Rightarrow> request \<Rightarrow> (failure + obj response) \<times> obj list" where
  "editCoupon L coupons req =
     (case findById L coupons (JStr (params_id req)) of
        Inl e \<Rightarrow> (Inl e, coupons)
      | Inr None \<Rightarrow> (Inl (ApiError 404 ''Coupon not found'' []), coupons)
      | Inr (Some existingCoupon) \<Rightarrow>
          (let logoUrl = logo_of req (obj_get existingCoupon ''logo'');
               updatedData = obj_set ''logo'' logoUrl (body req);
               res = joi_validate L editCouponSchema updatedData
           in if fst res \<noteq> [] then (Inl (ApiError 400 ''Validation failed'' (fst res)), coupons)
              else (let updatedCoupon = assign_defined (snd res) existingCoupon
                    in if \<not> couponValid L updatedCoupon then (Inl (Thrown ''ValidationError''), coupons)
                       else (Inr (ApiResponse 200 updatedCoupon ''Coupon updated successfully''),
                             replace_by_id (JStr (params_id req)) updatedCoupon coupons))))"

text \<open>
  The auto-expiry sweep of \<open>displayCoupons\<close>:
  \<open>updateMany({ expiryDate: { $lte: now }, status: "active" }, { $set: { status: "expired" } })\<close>.
\<close>

definition sweep_match :: "int \<Rightarrow> obj \<Rightarrow> bool" where
  "sweep_match now d =
     ((case obj_get d ''expiryDate'' of JDate t \<Rightarrow> t \<le> now | _ \<Rightarrow> False) \<and>
      obj_get d ''status'' = JStr ''active'')"

definition autoExpire :: "int \<Rightarrow> obj list \<Rightarrow> obj list" where
  "autoExpire now coupons =
     map (\<lambda>d. if sweep_match now d then obj_set ''status'' (JStr ''expired'') d else d) coupons"

text \<open>
  \<open>.sort({ k: -1 })\<close>: descending by the value under \<open>k\<close>, compared by type first
  (nothing, numbers, strings, dates) and then by value; the sort keys of the controller
  are dates, and strings are not compared further.
\<close>

fun sort_rank :: "jsval \<Rightarrow> nat \<times> real" where
  "sort_rank JUndefined = (1, 0)"
| "sort_rank JNull = (1, 0)"
| "sort_rank (JNum r) = (2, r)"
| "sort_rank (JStr s) = (3, 0)"
| "sort_rank (JJwt p k) = (3, 0)"
| "sort_rank (JDate t) = (4, real_of_int t)"

definition rank_less :: "nat \<times> real \<Rightarrow> nat \<times> real \<Rightarrow> bool" where
  "rank_less a b = (fst a < fst b \<or> (fst a = fst b \<and> snd a < snd b))"

fun insert_desc :: "string \<Rightarrow> obj \<Rightarrow> obj list \<Rightarrow> obj list" where
  "insert_desc k d [] = [d]"
| "insert_desc k d (x # xs) =
     (if rank_less (sort_rank (obj_get x k)) (sort_rank (obj_get d k))
      then d # x # xs else x # insert_desc k d xs)"

definition sort_desc :: "string \<Rightarrow> obj list \<Rightarrow> obj list" where
  "sort_desc k ds = foldr (insert_desc k) ds []"

text \<open>The shape the listings give each coupon.\<close>

definition format_all :: "obj \<Rightarrow> obj" where
  "format_all coupon =
     [(''id'', obj_get coupon ''_id''),
      (''title'', obj_get coupon ''couponTitle''),
      (''logo'', obj_get coupon ''logo''),
      (''offerTitle'', obj_get coupon ''offerTitle''),
      (''offerDescription'', obj_get coupon ''offerDescription''),
      (''expiryDate'', obj_get coupon ''expiryDate''),
      (''status'', obj_get coupon ''status''),
      (''claimPercentage'', obj_get coupon ''claimPercentage''),
      (''viewCount'', obj_get coupon ''viewCount''),
      (''createdAt'', obj_get coupon ''createdAt'')]"

definition format_status :: "obj \<Rightarrow> obj" where
  "format_status coupon =
     [(''id'', obj_get coupon ''_id''),
      (''title'', obj_get coupon ''couponTitle''),
      (''logo'', obj_get coupon ''logo''),
      (''offerTitle'', obj_get coupon ''offerTitle''),
      (''offerDescription'', obj_get coupon ''offerDescription''),
      (''expiryDate'', obj_get coupon ''expiryDate''),
      (''claimPercentage'', obj_get coupon ''claimPercentage''),
      (''viewCount'', obj_get coupon ''viewCount''),
      (''createdAt'', obj_get coupon ''createdAt''),
      (''status'', obj_get coupon ''status'')]"

text \<open>\<open>$group: { _id: "$status", count: { $sum: 1 } }\<close>, reduced to one object.\<close>

fun count_status :: "jsval \<Rightarrow> (jsval \<times> nat) list \<Rightarrow> (jsval \<times> nat) list" where
  "count_status s [] = [(s, 1)]"
| "count_status s ((s', n) # gs) =
     (if s' = s then (s', Suc n) # gs else (s', n) # count_status s gs)"

definition status_summary :: "obj list \<Rightarrow> (jsval \<times> nat) list" where
  "status_summary ds =
     foldl (\<lambda>acc d. count_status (case obj_get d ''status'' of JUndefined \<Rightarrow> JNull | s \<Rightarrow> s) acc) [] ds"

record all_coupons =
  couponCount :: nat
  statusSummary :: "(jsval \<times> nat) list"
  all_listed :: "obj list"

record status_coupons =
  listed_count :: nat
  listed :: "obj list"

definition displayCoupons :: "int \<Rightarrow> obj list \<Rightarrow> (failure + all_coupons response) \<times> obj list" where
  "displayCoupons now coupons =
     (let swept = autoExpire now coupons;
          couponsRaw = sort_desc ''createdAt'' swept;
          formatted = map format_all couponsRaw
      in (Inr (ApiResponse 200
                 \<lparr> couponCount = length formatted,
                   statusSummary = status_summary swept,
                   all_listed = formatted \<rparr>
                 ''Coupons fetched successfully.''),
          swept))"

text \<open>\<open>Coupon.find({ status: s }).sort({ createdAt: -1 })\<close>.\<close>

definition find_status :: "string \<Rightarrow> obj list \<Rightarrow> obj list" where
  "find_status s coupons =
     sort_desc ''createdAt'' (filter (\<lambda>d. obj_get d ''status'' = JStr s) coupons)"

definition displayDeletedCoupons :: "obj list \<Rightarrow> (failure + status_coupons response) \<times> obj list" where
  "displayDeletedCoupons coupons =
     (let formatted = map format_status (find_status ''deleted'' coupons)
      in (Inr (ApiResponse 200 \<lparr> listed_count = length formatted, listed = formatted \<rparr>
                 ''Deleted coupons fetched successfully.''),
          coupons))"

definition displayActiveCoupons :: "obj list \<Rightarrow> (failure + status_coupons response) \<times> obj list" where
  "displayActiveCoupons coupons =
     (let formatted = map format_status (find_status ''active'' coupons)
      in (Inr (ApiResponse 200 \<lparr> listed_count = length formatted, listed = formatted \<rparr>
                 ''Active coupons fetched successfully.''),
          coupons))"

definition displayExpiredCoupons :: "obj list \<Rightarrow> (failure + status_coupons response) \<times> obj list" where
  "displayExpiredCoupons coupons =
     (let formatted = map format_status (find_status ''expired'' coupons)
      in (Inr (ApiResponse 200 \<lparr> listed_count = length formatted, listed = formatted \<rparr>
                 ''Expired coupons fetched successfully.''),
          coupons))"







section \<open>Advertisement analytics\<close>

text \<open>
  Modelled from the spec: the Advertisement model is not among the sources. An
  advertisement carries a viewer log, a list of entries with a user reference and a
  viewed-at timestamp (milliseconds).
\<close>

record viewer =
  userId :: string
  viewedAt :: int

record advertisement =
  ad_doc :: obj
  viewers :: "viewer list"

record day_stats =
  date :: string
  totalViews :: nat
  uniqueUsersCount :: nat

text \<open>\<open>{ $unwind: "$viewers" }\<close>: one document for each entry of each viewer log.\<close>

definition unwind_viewers :: "advertisement list \<Rightarrow> viewer list" where
  "unwind_viewers ads = concat (map viewers ads)"

text \<open>
  The \<open>$group\<close> stage: a group for each day string, with \<open>$sum: 1\<close> and
  \<open>$addToSet\<close> of the user reference.
\<close>

fun group_add :: "string \<Rightarrow> string \<Rightarrow> (string \<times> nat \<times> string list) list
    \<Rightarrow> (string \<times> nat \<times> string list) list" where
  "group_add d u [] = [(d, 1, [u])]"
| "group_add d u ((d', n, us) # gs) =
     (if d' = d then (d', Suc n, List.insert u us) # gs else (d', n, us) # group_add d u gs)"

definition group_by_day :: "lib \<Rightarrow> viewer list \<Rightarrow> (string \<times> nat \<times> string list) list" where
  "group_by_day L vs = foldl (\<lambda>gs v. group_add (dateToString L (viewedAt v)) (userId v) gs) [] vs"

text \<open>The \<open>$project\<close> stage.\<close>

definition project_day :: "string \<times> nat \<times> string list \<Rightarrow> day_stats" where
  "project_day g =
     \<lparr> date = fst g, totalViews = fst (snd g), uniqueUsersCount = length (snd (snd g)) \<rparr>"

text \<open>\<open>{ $sort: { date: -1 } }\<close>: the day strings compare as strings.\<close>

fun insert_by_date :: "day_stats \<Rightarrow> day_stats list \<Rightarrow> day_stats list" where
  "insert_by_date x [] = [x]"
| "insert_by_date x (y # ys) =
     (if date y < date x then x # y # ys else y # insert_by_date x ys)"

definition sort_by_date_desc :: "day_stats list \<Rightarrow> day_stats list" where
  "sort_by_date_desc xs = foldr insert_by_date xs []"

definition analytics :: "lib \<Rightarrow> advertisement list \<Rightarrow> day_stats list response" where
  "analytics L ads =
     ApiResponse 200
       (sort_by_date_desc (map project_day (group_by_day L (unwind_viewers ads))))
       ''Day-wise analytics data''"

text \<open>
  What the claim says of a day \<open>d\<close>: its date, the number of views on it and the number
  of distinct users who viewed on it.
\<close>

definition day_of :: "lib \<Rightarrow> viewer \<Rightarrow> string" where
  "day_of L v = dateToString L (viewedAt v)"

definition stats_of :: "lib \<Rightarrow> viewer list \<Rightarrow> string \<Rightarrow> day_stats" where
  "stats_of L vs d =
     \<lparr> date = d,
       totalViews = length (filter (\<lambda>v. day_of L v = d) vs),
       uniqueUsersCount = card (userId ` {v \<in> set vs. day_of L v = d}) \<rparr>"

text \<open>The groups after the viewer entries \<open>vs\<close> have been added, as they should be.\<close>

definition group_ok :: "lib \<Rightarrow> viewer list \<Rightarrow> (string \<times> nat \<times> string list) list \<Rightarrow> bool" where
  "group_ok L vs gs =
     (distinct (map fst gs) \<and> set (map fst gs) = day_of L ` set vs \<and>
      list_all (\<lambda>g. fst (snd g) = length (filter (\<lambda>v. day_of L v = fst g) vs) \<and>
                     distinct (snd (snd g)) \<and>
                     set (snd (snd g)) = userId ` {v \<in> set vs. day_of L v = fst g}) gs)"

section \<open>Sample data\<close>

text \<open>
  One instance of the library behaviour and of the environment, for evaluating the
  handlers on concrete requests.
\<close>

definition lib0 :: lib where
  "lib0 = \<lparr> objectIdValid = (\<lambda>s. length s = 24),
            timespan = (\<lambda>s. if s = ''1d'' then Some 86400 else if s = ''30d'' then Some 2592000 else None),
            toNumber = (\<lambda>s. if s = ''150'' then Some 150 else None),
            toDate = (\<lambda>s. if s = ''2030-01-01'' then Some 1893456000000 else None),
            isUri = (\<lambda>s. take 8 s = ''https://''),
            couponValid = (\<lambda>d. True),
            dateToString = (\<lambda>t. if t < 86400000 then ''1970-01-01'' else ''1970-01-02''),
            jsToString = (\<lambda>v. ''[object]'') \<rparr>"

definition env0 :: env where
  "env0 = \<lparr> ACCESS_TOKEN_SECRET = Some ''access-secret'',
             REFRESH_TOKEN_SECRET = Some ''refresh-secret'',
             ACCESS_TOKEN_EXPIRY = None,
             REFRESH_TOKEN_EXPIRY = Some [] \<rparr>"

definition user0 :: obj where
  "user0 = [(''_id'', JStr ''64b7f0c2a1d3e4f5a6b7c8d9''), (''email'', JStr ''a@b.c''),
            (''refreshToken'', JNull)]"

definition req0 :: request where
  "req0 = \<lparr> authorization = None, cookies = None, x_refresh_token = JUndefined,
             params_id = [], body = [], file_upload = None, venture = None,
             admin = None, user = None \<rparr>"

text \<open>
  A venture, its request to create the coupon of the spec's example (the expiry date is
  the day before the creation), the coupon that request creates, the same coupon once
  deleted and once expired, and a request with a claim percentage of 150.
\<close>

definition venture0 :: obj where
  "venture0 = [(''_id'', JStr ''650000000000000000000001''), (''email'', JStr ''v@b.c'')]"

definition create_req0 :: request where
  "create_req0 = req0\<lparr> venture := Some venture0,
       body := [(''couponTitle'', JStr ''Diwali Sale''), (''offerTitle'', JStr ''20% off''),
                (''offerDescription'', JStr ''On everything''),
                (''termsAndConditions'', JStr ''One per customer''),
                (''expiryDate'', JStr ''2030-01-01'')] \<rparr>"

definition coupon0 :: obj where
  "coupon0 =
     [(''_id'', JStr ''65a000000000000000000001''), (''status'', JStr ''active''),
      (''viewCount'', JNum 0), (''createdAt'', JDate 1893542400000),
      (''couponTitle'', JStr ''Diwali Sale''), (''offerTitle'', JStr ''20% off''),
      (''offerDescription'', JStr ''On everything''),
      (''termsAndConditions'', JStr ''One per customer''),
      (''expiryDate'', JDate 1893456000000), (''logo'', JNull),
      (''createdBy'', JStr ''650000000000000000000001'')]"

definition deleted0 :: obj where
  "deleted0 =
     [(''_id'', JStr ''65a000000000000000000001''), (''status'', JStr ''deleted''),
      (''viewCount'', JNum 0), (''createdAt'', JDate 1893542400000),
      (''couponTitle'', JStr ''Diwali Sale''), (''offerTitle'', JStr ''20% off''),
      (''offerDescription'', JStr ''On everything''),
      (''termsAndConditions'', JStr ''One per customer''),
      (''expiryDate'', JDate 1893456000000), (''logo'', JNull),
      (''createdBy'', JStr ''650000000000000000000001'')]"

definition expired0 :: obj where
  "expired0 =
     [(''_id'', JStr ''65a000000000000000000001''), (''status'', JStr ''expired''),
      (''viewCount'', JNum 0), (''createdAt'', JDate 1893542400000),
      (''couponTitle'', JStr ''Diwali Sale''), (''offerTitle'', JStr ''20% off''),
      (''offerDescription'', JStr ''On everything''),
      (''termsAndConditions'', JStr ''One per customer''),
      (''expiryDate'', JDate 1893456000000), (''logo'', JNull),
      (''createdBy'', JStr ''650000000000000000000001'')]"

definition pct_req0 :: request where
  "pct_req0 = create_req0\<lparr> body := (''claimPercentage'', JStr ''150'') # body create_req0 \<rparr>"

text \<open>
  A request that violates four fields at once: a title of one no-break space, no offer
  description, an expiry date that does not read as a date and a claim percentage of 150.
\<close>

definition bad_req0 :: request where
  "bad_req0 = req0\<lparr> venture := Some venture0,
       body := [(''couponTitle'', JStr [CHR 0xC2, CHR 0xA0]), (''offerTitle'', JStr ''20% off''),
                (''termsAndConditions'', JStr ''One per customer''),
                (''expiryDate'', JStr ''tomorrow''),
                (''claimPercentage'', JStr ''150'')] \<rparr>"




text \<open>
  Two advertisements: the first viewed by user A on the first day, the second by user B
  on the first day and by user A on the second.
\<close>

definition ads0 :: "advertisement list" where
  "ads0 =
     [\<lparr>ad_doc = [(''title'', JStr ''First'')],
       viewers = [\<lparr>userId = ''userA'', viewedAt = 1000\<rparr>]\<rparr>,
      \<lparr>ad_doc = [(''title'', JStr ''Second'')],
       viewers = [\<lparr>userId = ''userB'', viewedAt = 2000\<rparr>,
                  \<lparr>userId = ''userA'', viewedAt = 86401000\<rparr>]\<rparr>]"

text \<open>
  Tokens for the sample data: the access token the user model issues for \<open>user0\<close> at
  time 1000 and the refresh tokens it issues at times 500 and 1000, \<open>user0\<close> with the
  later refresh token stored, and tokens whose payload carries the principal under
  \<open>_id\<close>, signed with the same secrets, for an administrator; a user document with the
  \<open>_id\<close> of that administrator.
\<close>

definition tok0 :: jsval where
  "tok0 = JJwt [(''id'', JStr ''64b7f0c2a1d3e4f5a6b7c8d9''), (''email'', JStr ''a@b.c''),
                (''iat'', JNum 1000), (''exp'', JNum 87400)] ''access-secret''"

definition rtok0 :: jsval where
  "rtok0 = JJwt [(''id'', JStr ''64b7f0c2a1d3e4f5a6b7c8d9''),
                 (''iat'', JNum 1000), (''exp'', JNum 2593000)] ''refresh-secret''"

definition rtok0_old :: jsval where
  "rtok0_old = JJwt [(''id'', JStr ''64b7f0c2a1d3e4f5a6b7c8d9''),
                     (''iat'', JNum 500), (''exp'', JNum 2592500)] ''refresh-secret''"

definition user0_logged_in :: obj where
  "user0_logged_in = [(''_id'', JStr ''64b7f0c2a1d3e4f5a6b7c8d9''), (''email'', JStr ''a@b.c''),
                      (''refreshToken'', rtok0)]"

definition admin_atok :: jsval where
  "admin_atok = JJwt [(''_id'', JStr ''507f1f77bcf86cd799439011''),
                      (''iat'', JNum 1000), (''exp'', JNum 87400)] ''access-secret''"

definition admin_rtok_old :: jsval where
  "admin_rtok_old = JJwt [(''_id'', JStr ''507f1f77bcf86cd799439011''),
                      (''iat'', JNum 500), (''exp'', JNum 2592500)] ''refresh-secret''"

definition admin_rtok_new :: jsval where
  "admin_rtok_new = JJwt [(''_id'', JStr ''507f1f77bcf86cd799439011''),
                      (''iat'', JNum 1000), (''exp'', JNum 2593000)] ''refresh-secret''"

definition admin0 :: obj where
  "admin0 = [(''_id'', JStr ''507f1f77bcf86cd799439011''), (''email'', JStr ''root@b.c''),
             (''refreshToken'', admin_rtok_new)]"

definition user1 :: obj where
  "user1 = [(''_id'', JStr ''507f1f77bcf86cd799439011''), (''email'', JStr ''c@b.c''),
            (''refreshToken'', JNull)]"

section \<open>Properties of the token service and of the auth middleware\<close>

lemma obj_get_simps [simp]:
  "obj_get [] k = JUndefined"
  "obj_get ((k', v) # ob) k = (if k' = k then v else obj_get ob k)"
  by (simp_all add: obj_get_def)

lemma obj_get_obj_set [simp]:
  "obj_get (obj_set k v ob) k' = (if k' = k then v else obj_get ob k')"
  by (simp add: obj_get_def obj_set_def update_conv')

lemma obj_set_fresh: "k \<notin> fst ` set ob \<Longrightarrow> obj_set k v ob = ob @ [(k, v)]"
  by (induction ob) (auto simp: obj_set_def)

lemma access_claims:
  "json_props [(''id'', a), (''email'', b)] = ob \<Longrightarrow>
   obj_set ''exp'' x (obj_set ''iat'' y ob) = ob @ [(''iat'', y), (''exp'', x)]"
  by (auto simp: json_props_def obj_set_def)

lemma generateAccessToken_Inr:
  assumes "generateAccessToken L E iat u = Inr tok"
  obtains k ttl where "ACCESS_TOKEN_SECRET E = Some k" "k \<noteq> []"
    "timespan L (env_or (ACCESS_TOKEN_EXPIRY E) ''1d'') = Some ttl"
    "tok = JJwt (access_payload u iat ttl) k"
  using assms access_claims [OF refl, of _ _ "obj_get u ''_id''" "obj_get u ''email''"]
  by (auto simp: generateAccessToken_def jwt_sign_def access_payload_def number_or_absent_def
      Let_def split: option.splits if_splits)

lemma access_payload_exp [simp]:
  "obj_get (access_payload u iat ttl) ''exp'' = JNum (real_of_int iat + ttl)"
  by (auto simp: access_payload_def json_props_def)

lemma access_payload_no_id [simp]:
  "obj_get (access_payload u iat ttl) ''_id'' = JUndefined"
  by (auto simp: access_payload_def json_props_def)

lemma access_payload_nbf [simp]:
  "obj_get (access_payload u iat ttl) ''nbf'' = JUndefined"
  by (auto simp: access_payload_def json_props_def)

lemma access_payload_id [simp]:
  "obj_get (access_payload u iat ttl) ''id'' = obj_get u ''_id''"
  by (auto simp: access_payload_def json_props_def)

lemma access_payload_keys:
  "''_id'' \<notin> fst ` set (access_payload u iat ttl)"
  by (auto simp: access_payload_def json_props_def)

lemma verify_issued:
  assumes "generateAccessToken L E iat u = Inr tok"
    and "jwt_verify now tok (ACCESS_TOKEN_SECRET E) \<noteq> Inl (Thrown ''TokenExpiredError: jwt expired'')"
  shows "\<exists>ttl. jwt_verify now tok (ACCESS_TOKEN_SECRET E) = Inr (access_payload u iat ttl)"
proof -
  from assms(1) obtain k ttl where k: "ACCESS_TOKEN_SECRET E = Some k" "k \<noteq> []"
    and tok: "tok = JJwt (access_payload u iat ttl) k"
    by (rule generateAccessToken_Inr)
  with assms(2) have "jwt_verify now tok (ACCESS_TOKEN_SECRET E) = Inr (access_payload u iat ttl)"
    by (simp add: jwt_verify_def number_or_absent_def number_or_absent_def split: if_splits)
  then show ?thesis ..
qed


lemma issue_tok0: "generateAccessToken lib0 env0 1000 user0 = Inr tok0"
  by (simp add: generateAccessToken_def jwt_sign_def number_or_absent_def obj_set_def lib0_def env0_def user0_def env_or_def
      json_props_def tok0_def)

lemma issue_rtok0: "generateRefreshToken lib0 env0 1000 user0 = Inr rtok0"
  by (simp add: generateRefreshToken_def jwt_sign_def number_or_absent_def obj_set_def lib0_def env0_def user0_def env_or_def
      json_props_def rtok0_def)

lemma issue_rtok0_old: "generateRefreshToken lib0 env0 500 user0 = Inr rtok0_old"
  by (simp add: generateRefreshToken_def jwt_sign_def number_or_absent_def obj_set_def lib0_def env0_def user0_def env_or_def
      json_props_def rtok0_old_def)

lemma verify_tok0:
  "jwt_verify 2000 tok0 (ACCESS_TOKEN_SECRET env0) =
     Inr [(''id'', JStr ''64b7f0c2a1d3e4f5a6b7c8d9''), (''email'', JStr ''a@b.c''),
          (''iat'', JNum 1000), (''exp'', JNum 87400)]"
  by (simp add: jwt_verify_def number_or_absent_def tok0_def env0_def)

text \<open>
  Claim C1, as amended. The user and the admin middleware verify an access token with
  the same secret, \<open>ACCESS_TOKEN_SECRET\<close>: a token the user model issued, presented before
  it expires, passes \<open>jwt.verify\<close> in both, and each middleware then goes on to look the
  decoded principal up in its own collection. No signing secret separates the roles.
\<close>

theorem C1_access_secret_is_shared:
  assumes "generateAccessToken L E iat u = Inr tok"
    and "jwt_verify now tok (ACCESS_TOKEN_SECRET E) \<noteq> Inl (Thrown ''TokenExpiredError: jwt expired'')"
  shows "\<exists>decoded.
           jwt_verify now tok (ACCESS_TOKEN_SECRET E) = Inr decoded \<and>
           userverifyJWT_try L E now users tok =
             (case findById L users (obj_get decoded ''_id'') of
                Inl e \<Rightarrow> Inl e
              | Inr None \<Rightarrow> Inl (ApiError 404 ''User not found'' [])
              | Inr (Some a) \<Rightarrow> Inr (select_minus ''refreshToken'' a)) \<and>
           adminverifyJWT_try L E now admins tok =
             (case findById L admins (obj_get decoded ''_id'') of
                Inl e \<Rightarrow> Inl e
              | Inr None \<Rightarrow> Inl (ApiError 404 ''Admin not found'' [])
              | Inr (Some a) \<Rightarrow> Inr (select_minus ''refreshToken'' a))"
proof -
  from verify_issued [OF assms] obtain ttl
    where "jwt_verify now tok (ACCESS_TOKEN_SECRET E) = Inr (access_payload u iat ttl)" ..
  then show ?thesis
    by (simp add: adminverifyJWT_try_def userverifyJWT_try_def)
qed

text \<open>The amended claim C1 at the token issued for \<open>user0\<close>.\<close>

theorem C1_access_secret_is_shared_witness:
  "generateAccessToken lib0 env0 1000 user0 = Inr tok0 \<and>
   jwt_verify 2000 tok0 (ACCESS_TOKEN_SECRET env0) \<noteq> Inl (Thrown ''TokenExpiredError: jwt expired'') \<and>
   (\<exists>decoded.
      jwt_verify 2000 tok0 (ACCESS_TOKEN_SECRET env0) = Inr decoded \<and>
      userverifyJWT_try lib0 env0 2000 [user0] tok0 =
        (case findById lib0 [user0] (obj_get decoded ''_id'') of
           Inl e \<Rightarrow> Inl e
         | Inr None \<Rightarrow> Inl (ApiError 404 ''User not found'' [])
         | Inr (Some a) \<Rightarrow> Inr (select_minus ''refreshToken'' a)) \<and>
      adminverifyJWT_try lib0 env0 2000 [admin0] tok0 =
        (case findById lib0 [admin0] (obj_get decoded ''_id'') of
           Inl e \<Rightarrow> Inl e
         | Inr None \<Rightarrow> Inl (ApiError 404 ''Admin not found'' [])
         | Inr (Some a) \<Rightarrow> Inr (select_minus ''refreshToken'' a)))"
proof -
  have a: "generateAccessToken lib0 env0 1000 user0 = Inr tok0" by (rule issue_tok0)
  have b: "jwt_verify 2000 tok0 (ACCESS_TOKEN_SECRET env0) \<noteq> Inl (Thrown ''TokenExpiredError: jwt expired'')"
    by (simp add: verify_tok0)
  from C1_access_secret_is_shared [OF a b, of "[user0]" "[admin0]"] a b show ?thesis by blast
qed

text \<open>
  Claim C1 as stated fails: the access token issued for the user \<open>user0\<close> verifies under
  the secret of the admin middleware, whose \<open>try\<close> block gets as far as the lookup of the
  administrator. And one token, \<open>admin_atok\<close>, is accepted by the admin middleware and by
  the user middleware alike when each collection holds a document with its \<open>_id\<close>.
\<close>

theorem C1_counterexample:
  "generateAccessToken lib0 env0 1000 user0 = Inr tok0 \<and>
   jwt_verify 2000 tok0 (ACCESS_TOKEN_SECRET env0) =
     Inr [(''id'', JStr ''64b7f0c2a1d3e4f5a6b7c8d9''), (''email'', JStr ''a@b.c''),
          (''iat'', JNum 1000), (''exp'', JNum 87400)] \<and>
   adminverifyJWT_try lib0 env0 2000 [admin0] tok0 = Inl (ApiError 404 ''Admin not found'' []) \<and>
   adminverifyJWT lib0 env0 2000 [admin0]
       (req0\<lparr>authorization := Some [JStr ''Bearer'', admin_atok]\<rparr>) =
     Inr (req0\<lparr>authorization := Some [JStr ''Bearer'', admin_atok],
               admin := Some [(''_id'', JStr ''507f1f77bcf86cd799439011''), (''email'', JStr ''root@b.c'')]\<rparr>) \<and>
   userverifyJWT lib0 env0 2000 [user1]
       (req0\<lparr>authorization := Some [JStr ''Bearer'', admin_atok]\<rparr>) =
     Inr (req0\<lparr>authorization := Some [JStr ''Bearer'', admin_atok],
               user := Some [(''_id'', JStr ''507f1f77bcf86cd799439011''), (''email'', JStr ''c@b.c'')]\<rparr>)"
proof -
  have a: "adminverifyJWT_try lib0 env0 2000 [admin0] tok0 = Inl (ApiError 404 ''Admin not found'' [])"
    by (simp add: verify_tok0 adminverifyJWT_try_def findById_def)
  have v: "jwt_verify 2000 admin_atok (ACCESS_TOKEN_SECRET env0) =
      Inr [(''_id'', JStr ''507f1f77bcf86cd799439011''), (''iat'', JNum 1000), (''exp'', JNum 87400)]"
    by (simp add: jwt_verify_def number_or_absent_def admin_atok_def env0_def)
  have t: "truthy admin_atok"
    by (simp add: admin_atok_def)
  have b: "adminverifyJWT lib0 env0 2000 [admin0]
       (req0\<lparr>authorization := Some [JStr ''Bearer'', admin_atok]\<rparr>) =
     Inr (req0\<lparr>authorization := Some [JStr ''Bearer'', admin_atok],
               admin := Some [(''_id'', JStr ''507f1f77bcf86cd799439011''), (''email'', JStr ''root@b.c'')]\<rparr>)"
    using v t
    by (simp add: adminverifyJWT_def adminverifyJWT_try_def findById_def lib0_def admin0_def
        req0_def bearer_token_def select_minus_def)
  have c: "userverifyJWT lib0 env0 2000 [user1]
       (req0\<lparr>authorization := Some [JStr ''Bearer'', admin_atok]\<rparr>) =
     Inr (req0\<lparr>authorization := Some [JStr ''Bearer'', admin_atok],
               user := Some [(''_id'', JStr ''507f1f77bcf86cd799439011''), (''email'', JStr ''c@b.c'')]\<rparr>)"
    using v t
    by (simp add: userverifyJWT_def userverifyJWT_try_def findById_def lib0_def user1_def
        req0_def bearer_token_def select_minus_def)
  from issue_tok0 verify_tok0 a b c show ?thesis by simp
qed

text \<open>
  Claim C2. A token issued by \<open>generateAccessToken\<close> stores the principal under the
  claim \<open>id\<close>; its decoded payload has no property \<open>_id\<close>, so the key both middlewares
  look up, \<open>decoded._id\<close>, is \<open>undefined\<close> and not the issued principal id, and the
  lookup finds no principal whatever the collection holds.
\<close>

theorem C2_issued_id_claim_is_not_lookup_key:
  assumes "generateAccessToken L E iat u = Inr tok"
    and "jwt_verify now tok (ACCESS_TOKEN_SECRET E) = Inr decoded"
  shows "''_id'' \<notin> fst ` set decoded \<and>
         obj_get decoded ''_id'' = JUndefined \<and>
         obj_get decoded ''id'' = obj_get u ''_id'' \<and>
         adminverifyJWT_try L E now admins tok = Inl (ApiError 404 ''Admin not found'' []) \<and>
         userverifyJWT_try L E now users tok = Inl (ApiError 404 ''User not found'' [])"
proof -
  from assms(2) have "jwt_verify now tok (ACCESS_TOKEN_SECRET E) \<noteq> Inl (Thrown ''TokenExpiredError: jwt expired'')"
    by simp
  from verify_issued [OF assms(1) this] assms(2) obtain ttl where d: "decoded = access_payload u iat ttl"
    by auto
  show ?thesis
    using assms(2) by (simp add: d access_payload_keys adminverifyJWT_try_def userverifyJWT_try_def findById_def)
qed

text \<open>Claim C2 at the token issued for \<open>user0\<close>, looked up in a collection that holds \<open>user0\<close>.\<close>

theorem C2_issued_id_claim_is_not_lookup_key_witness:
  "generateAccessToken lib0 env0 1000 user0 = Inr tok0 \<and>
   jwt_verify 2000 tok0 (ACCESS_TOKEN_SECRET env0) =
     Inr [(''id'', JStr ''64b7f0c2a1d3e4f5a6b7c8d9''), (''email'', JStr ''a@b.c''),
          (''iat'', JNum 1000), (''exp'', JNum 87400)] \<and>
   obj_get [(''id'', JStr ''64b7f0c2a1d3e4f5a6b7c8d9''), (''email'', JStr ''a@b.c''),
          (''iat'', JNum 1000), (''exp'', JNum 87400)] ''_id'' = JUndefined \<and>
   obj_get user0 ''_id'' = JStr ''64b7f0c2a1d3e4f5a6b7c8d9'' \<and>
   userverifyJWT_try lib0 env0 2000 [user0] tok0 = Inl (ApiError 404 ''User not found'' [])"
proof -
  have "obj_get user0 ''_id'' = JStr ''64b7f0c2a1d3e4f5a6b7c8d9''"
    by (simp add: user0_def)
  with C2_issued_id_claim_is_not_lookup_key [OF issue_tok0 verify_tok0, of "[admin0]" "[user0]"]
    issue_tok0 verify_tok0
  show ?thesis by simp
qed

text \<open>
  The \<open>catch\<close> of each middleware also catches the \<open>ApiError\<close> its own \<open>try\<close> block
  throws, so the status 403 of the refresh flow and the status 404 of the access flow
  never reach the caller.
\<close>

lemma verifyRefreshToken_never_403:
  "verifyRefreshToken_admin L E now admins req \<noteq> Inl (ApiError 403 m es) \<and>
   verifyRefreshToken_user L E now users req \<noteq> Inl (ApiError 403 m es)"
  by (simp add: verifyRefreshToken_admin_def verifyRefreshToken_user_def Let_def split: sum.splits)

lemma verifyJWT_never_404:
  "adminverifyJWT L E now admins req \<noteq> Inl (ApiError 404 m es) \<and>
   userverifyJWT L E now users req \<noteq> Inl (ApiError 404 m es)"
  by (simp add: adminverifyJWT_def userverifyJWT_def Let_def split: sum.splits)

text \<open>
  Claim C4 does not hold of the code. The refresh token \<open>admin_rtok_old\<close> has a valid
  signature and is not expired, the administrator it names is stored with another refresh
  token, and the \<open>try\<close> block throws the 403; the middleware answers 401. So does the
  user middleware for the earlier of the two refresh tokens the user model issued for
  \<open>user0\<close>, who is stored with the later one.
\<close>

theorem C4_refresh_mismatch_answers_401:
  "jwt_verify 2000 admin_rtok_old (REFRESH_TOKEN_SECRET env0) =
     Inr [(''_id'', JStr ''507f1f77bcf86cd799439011''), (''iat'', JNum 500), (''exp'', JNum 2592500)] \<and>
   findById lib0 [admin0] (JStr ''507f1f77bcf86cd799439011'') = Inr (Some admin0) \<and>
   obj_get admin0 ''refreshToken'' = admin_rtok_new \<and>
   admin_rtok_new \<noteq> admin_rtok_old \<and>
   verifyRefreshToken_try lib0 env0 2000 [admin0] admin_rtok_old =
     Inl (ApiError 403 ''Invalid refresh token'' []) \<and>
   verifyRefreshToken_admin lib0 env0 2000 [admin0]
       (req0\<lparr>cookies := Some [(''refreshToken'', admin_rtok_old)]\<rparr>) =
     Inl (ApiError 401 ''Refresh token expired or invalid'' []) \<and>
   generateRefreshToken lib0 env0 500 user0 = Inr rtok0_old \<and>
   generateRefreshToken lib0 env0 1000 user0 = Inr rtok0 \<and>
   obj_get user0_logged_in ''refreshToken'' = rtok0 \<and>
   rtok0 \<noteq> rtok0_old \<and>
   jwt_verify 2000 rtok0_old (REFRESH_TOKEN_SECRET env0) =
     Inr [(''id'', JStr ''64b7f0c2a1d3e4f5a6b7c8d9''), (''iat'', JNum 500), (''exp'', JNum 2592500)] \<and>
   verifyRefreshToken_user lib0 env0 2000 [user0_logged_in]
       (req0\<lparr>x_refresh_token := rtok0_old\<rparr>) =
     Inl (ApiError 401 ''Refresh token expired or invalid'' [])"
  by (simp add: issue_rtok0 issue_rtok0_old)
     (simp add: jwt_verify_def number_or_absent_def admin_rtok_old_def admin_rtok_new_def rtok0_def rtok0_old_def
      env0_def findById_def lib0_def admin0_def user0_logged_in_def
      verifyRefreshToken_try_def verifyRefreshToken_admin_def verifyRefreshToken_user_def
      req0_def refresh_token_of_def js_or_def)

text \<open>
  Claim C5 does not hold of the code. The access token \<open>admin_atok\<close> verifies, no stored
  principal has its id, and the \<open>try\<close> block throws the 404; the middleware answers 401.
\<close>

theorem C5_unknown_principal_answers_401:
  "jwt_verify 2000 admin_atok (ACCESS_TOKEN_SECRET env0) =
     Inr [(''_id'', JStr ''507f1f77bcf86cd799439011''), (''iat'', JNum 1000), (''exp'', JNum 87400)] \<and>
   findById lib0 [user0] (JStr ''507f1f77bcf86cd799439011'') = Inr None \<and>
   adminverifyJWT_try lib0 env0 2000 [user0] admin_atok = Inl (ApiError 404 ''Admin not found'' []) \<and>
   adminverifyJWT lib0 env0 2000 [user0]
       (req0\<lparr>authorization := Some [JStr ''Bearer'', admin_atok]\<rparr>) =
     Inl (ApiError 401 ''Invalid or expired access token'' []) \<and>
   userverifyJWT lib0 env0 2000 [user0]
       (req0\<lparr>authorization := Some [JStr ''Bearer'', admin_atok]\<rparr>) =
     Inl (ApiError 401 ''Invalid or expired access token'' [])"
  by (simp add: jwt_verify_def number_or_absent_def admin_atok_def env0_def findById_def lib0_def user0_def
      adminverifyJWT_try_def userverifyJWT_try_def adminverifyJWT_def userverifyJWT_def
      req0_def bearer_token_def)

text \<open>The principal a middleware attaches has no \<open>refreshToken\<close> property.\<close>

lemma select_minus_get [simp]: "obj_get (select_minus k d) k = JUndefined"
  by (simp add: obj_get_def select_minus_def delete_conv')

lemma verifyJWT_projection:
  "adminverifyJWT L E now admins req = Inr r \<Longrightarrow>
     \<exists>a. admin r = Some a \<and> obj_get a ''refreshToken'' = JUndefined"
  by (auto simp: adminverifyJWT_def adminverifyJWT_try_def Let_def
      split: sum.splits option.splits if_splits)

section \<open>Properties of the coupon schema\<close>

lemma message_field_label:
  "CHR 0x22 \<notin> set k \<Longrightarrow> message_field (label k @ m) = k"
  by (auto simp: message_field_def label_def takeWhile_tail)

lemma concat_if_singleton:
  "concat (map (\<lambda>x. if P x then [g x] else []) xs) = map g (filter P xs)"
  by (induction xs) auto

lemma trim_no_break_space: "trim [CHR 0xC2, CHR 0xA0] = []"
  by (simp add: trim_def js_spaces_def strip_leading.simps)

lemma trim_example: "trim ''  Diwali Sale '' = ''Diwali Sale''"
  by (simp add: trim_def js_spaces_def strip_leading.simps)

text \<open>Each key of \<open>couponSchema\<close> reports exactly when the input violates its field, and then once.\<close>

lemmas key_spec_defs =
  reports_as_spec_def key_messages_def validate_key_def coerce_def base_errors_def rule_errors_def
  spec_violates_def message_field_label Let_def

lemma key_spec_couponTitle:
  "reports_as_spec L data
     \<lparr>key_name = ''couponTitle'', key_type = JoiString, key_rules = [Trim], key_required = True,
      key_allow = []\<rparr>"
  by (cases "obj_get data ''couponTitle''") (simp_all add: key_spec_defs)

lemma key_spec_logo:
  "reports_as_spec L data
     \<lparr>key_name = ''logo'', key_type = JoiString, key_rules = [Uri], key_required = False,
      key_allow = [JNull, JStr []]\<rparr>"
  by (cases "obj_get data ''logo''") (simp_all add: key_spec_defs)

lemma key_spec_offerTitle:
  "reports_as_spec L data
     \<lparr>key_name = ''offerTitle'', key_type = JoiString, key_rules = [Trim], key_required = True,
      key_allow = []\<rparr>"
  by (cases "obj_get data ''offerTitle''") (simp_all add: key_spec_defs)

lemma key_spec_offerDescription:
  "reports_as_spec L data
     \<lparr>key_name = ''offerDescription'', key_type = JoiString, key_rules = [Trim], key_required = True,
      key_allow = []\<rparr>"
  by (cases "obj_get data ''offerDescription''") (simp_all add: key_spec_defs)

lemma key_spec_termsAndConditions:
  "reports_as_spec L data
     \<lparr>key_name = ''termsAndConditions'', key_type = JoiString, key_rules = [Trim], key_required = True,
      key_allow = []\<rparr>"
  by (cases "obj_get data ''termsAndConditions''") (simp_all add: key_spec_defs)

lemma key_spec_expiryDate:
  "reports_as_spec L data
     \<lparr>key_name = ''expiryDate'', key_type = JoiDate, key_rules = [], key_required = True,
      key_allow = []\<rparr>"
  by (cases "obj_get data ''expiryDate''") (auto simp: key_spec_defs split: option.splits)

lemma key_spec_offerDetails:
  "reports_as_spec L data
     \<lparr>key_name = ''offerDetails'', key_type = JoiString, key_rules = [], key_required = False,
      key_allow = [JStr []]\<rparr>"
  by (cases "obj_get data ''offerDetails''") (simp_all add: key_spec_defs)

lemma key_spec_aboutCompany:
  "reports_as_spec L data
     \<lparr>key_name = ''aboutCompany'', key_type = JoiString, key_rules = [], key_required = False,
      key_allow = [JStr []]\<rparr>"
  by (cases "obj_get data ''aboutCompany''") (simp_all add: key_spec_defs)

lemma key_spec_claimPercentage:
  "reports_as_spec L data
     \<lparr>key_name = ''claimPercentage'', key_type = JoiNumber, key_rules = [MinNum 0, MaxNum 100], key_required = False,
      key_allow = []\<rparr>"
  by (cases "obj_get data ''claimPercentage''") (auto simp: key_spec_defs split: option.splits)

lemma key_spec_createdBy:
  "reports_as_spec L data
     \<lparr>key_name = ''createdBy'', key_type = JoiString, key_rules = [], key_required = False,
      key_allow = []\<rparr>"
  by (cases "obj_get data ''createdBy''") (simp_all add: key_spec_defs)

lemma couponSchema_key_spec:
  assumes "K \<in> set (schema_keys couponSchema)"
  shows "map message_field (key_messages L data K) =
           (if spec_violates L data (key_name K) then [key_name K] else [])"
proof -
  have "list_all (reports_as_spec L data) (schema_keys couponSchema)"
    unfolding couponSchema_def
    by (simp only: joi_object.simps list.pred_inject key_spec_couponTitle key_spec_logo key_spec_offerTitle key_spec_offerDescription key_spec_termsAndConditions key_spec_expiryDate key_spec_offerDetails key_spec_aboutCompany key_spec_claimPercentage key_spec_createdBy simp_thms)
  with assms have "reports_as_spec L data K"
    by (simp add: list_all_iff)
  then show ?thesis
    by (simp only: reports_as_spec_def)
qed

lemma couponSchema_fields: "map key_name (schema_keys couponSchema) = coupon_fields"
  by (simp add: couponSchema_def coupon_fields_def)

lemma couponSchema_messages:
  "map message_field (fst (joi_validate L couponSchema data)) = spec_violated_fields L data"
proof -
  have "fst (joi_validate L couponSchema data) =
          concat (map (key_messages L data) (schema_keys couponSchema))"
    by (simp add: joi_validate_def key_messages_def couponSchema_def)
  then have "map message_field (fst (joi_validate L couponSchema data)) =
          concat (map (\<lambda>K. map message_field (key_messages L data K)) (schema_keys couponSchema))"
    by (simp add: map_concat comp_def)
  also have "\<dots> = concat (map (\<lambda>K. if spec_violates L data (key_name K) then [key_name K] else [])
                       (schema_keys couponSchema))"
    by (rule arg_cong [where f = concat], rule map_cong [OF refl], rule couponSchema_key_spec)
  also have "\<dots> = map key_name (filter (\<lambda>K. spec_violates L data (key_name K)) (schema_keys couponSchema))"
    by (rule concat_if_singleton)
  also have "\<dots> = filter (spec_violates L data) (map key_name (schema_keys couponSchema))"
    by (simp add: filter_map comp_def)
  finally show ?thesis
    by (simp add: couponSchema_fields spec_violated_fields_def)
qed

lemma createCoupon_validation:
  assumes "venture req = Some v" and "obj_get v ''_id'' = JStr vid"
    and "fst (joi_validate L couponSchema (form_data req (JStr vid))) \<noteq> []"
  shows "createCoupon L now newId coupons req =
           (Inl (ApiError 400 ''Validation error''
                  (fst (joi_validate L couponSchema (form_data req (JStr vid))))), coupons)"
  using assms by (simp add: createCoupon_def js_toString_def Let_def)

lemma claimPercentage_violates:
  assumes "obj_get data ''claimPercentage'' = JNum r \<or>
           (\<exists>s. obj_get data ''claimPercentage'' = JStr s \<and> toNumber L s = Some r)"
    and "r < 0 \<or> 100 < r"
  shows "spec_violated_fields L data \<noteq> []"
proof -
  from assms have "spec_violates L data ''claimPercentage''"
    by (auto simp: spec_violates_def)
  then show ?thesis
    by (auto simp: spec_violated_fields_def coupon_fields_def filter_empty_conv)
qed

lemmas eval_defs =
  createCoupon_def form_data_def logo_of_def js_toString_def joi_validate_def validate_key_def
  coerce_def base_errors_def rule_errors_def couponSchema_def editCouponSchema_def
  new_Coupon_def assign_defined_def save_new_def lib0_def req0_def
  venture0_def create_req0_def coupon0_def Let_def trim_def js_spaces_def strip_leading.simps
  obj_set_def

lemma create0:
  "createCoupon lib0 1893542400000 ''65a000000000000000000001'' [] create_req0 =
     (Inr (ApiResponse 201 coupon0 ''Coupon created successfully''), [coupon0])"
  by (simp add: eval_defs)

lemma show_nat_100: "show_nat 100 = ''100''"
  by code_simp

lemma bad0:
  "createCoupon lib0 1893542400000 ''65a000000000000000000002'' [coupon0] bad_req0 =
     (Inl (ApiError 400 ''Validation error''
        [label ''couponTitle'' @ '' is not allowed to be empty'',
         label ''offerDescription'' @ '' is required'',
         label ''expiryDate'' @ '' must be a valid date'',
         label ''claimPercentage'' @ '' must be less than or equal to 100'']), [coupon0])"
  by (simp add: createCoupon_def form_data_def logo_of_def js_toString_def joi_validate_def
      validate_key_def coerce_def base_errors_def rule_errors_def couponSchema_def lib0_def req0_def
      venture0_def bad_req0_def Let_def trim_def js_spaces_def strip_leading.simps obj_set_def
      show_nat_100)

lemma bad0_fields:
  "spec_violated_fields lib0 (form_data bad_req0 (JStr ''650000000000000000000001'')) =
     [''couponTitle'', ''offerDescription'', ''expiryDate'', ''claimPercentage'']"
  by (simp add: spec_violated_fields_def coupon_fields_def spec_violates_def form_data_def
      logo_of_def bad_req0_def req0_def lib0_def obj_set_def trim_def js_spaces_def
      strip_leading.simps)


lemma empty0:
  "createCoupon lib0 1893542400000 ''65a000000000000000000001'' [] (req0\<lparr>venture := Some venture0\<rparr>) =
     (Inl (ApiError 400 ''Validation error''
        [label ''couponTitle'' @ '' is required'',
         label ''offerTitle'' @ '' is required'',
         label ''offerDescription'' @ '' is required'',
         label ''termsAndConditions'' @ '' is required'',
         label ''expiryDate'' @ '' is required'']), [])"
  by (simp add: eval_defs)

lemma empty0_fields:
  "spec_violated_fields lib0 (form_data (req0\<lparr>venture := Some venture0\<rparr>) (JStr ''650000000000000000000001'')) =
     [''couponTitle'', ''offerTitle'', ''offerDescription'', ''termsAndConditions'', ''expiryDate'']"
  by (simp add: spec_violated_fields_def coupon_fields_def spec_violates_def form_data_def
      logo_of_def req0_def lib0_def obj_set_def)

text \<open>
  Claim C7. Say that an input violates a field when it breaks the constraint the
  specification puts on that field (\<open>spec_violates\<close>, which does not consult the schema).
  When the object \<open>createCoupon\<close> validates violates one or several fields, the call
  throws \<open>ApiError(400, "Validation error", msgs)\<close> and leaves the collection as it was;
  \<open>msgs\<close> holds exactly one message for each violated field and none for any other: the
  fields its messages name are the violated fields, all of them, each once, in the order
  of the schema. So validation does not stop at the first violation.
\<close>

theorem C7_create_reports_every_violated_field:
  assumes "venture req = Some v" and "obj_get v ''_id'' = JStr vid"
    and "spec_violated_fields L (form_data req (JStr vid)) \<noteq> []"
  shows "\<exists>msgs.
           createCoupon L now newId coupons req =
             (Inl (ApiError 400 ''Validation error'' msgs), coupons) \<and>
           map message_field msgs = spec_violated_fields L (form_data req (JStr vid)) \<and>
           length msgs = length (spec_violated_fields L (form_data req (JStr vid))) \<and>
           distinct (map message_field msgs)"
proof -
  let ?d = "form_data req (JStr vid)"
  let ?msgs = "fst (joi_validate L couponSchema ?d)"
  have m: "map message_field ?msgs = spec_violated_fields L ?d"
    by (rule couponSchema_messages)
  with assms(3) have "?msgs \<noteq> []" by auto
  with assms(1,2) have "createCoupon L now newId coupons req =
      (Inl (ApiError 400 ''Validation error'' ?msgs), coupons)"
    by (rule createCoupon_validation)
  moreover from m have "length ?msgs = length (spec_violated_fields L ?d)"
    by (metis length_map)
  moreover have "distinct (spec_violated_fields L ?d)"
    by (simp add: spec_violated_fields_def coupon_fields_def)
  ultimately show ?thesis using m by auto
qed

text \<open>
  Claim C7 at two requests of \<open>venture0\<close>: one with an empty body, which violates the
  five required fields, and one that violates four fields in four different ways, among
  them a title of one no-break space. Each is answered with status 400 and one message
  for each violated field, in the order of the schema.
\<close>

theorem C7_create_reports_every_violated_field_witness:
  "venture bad_req0 = Some venture0 \<and>
   venture (req0\<lparr>venture := Some venture0\<rparr>) = Some venture0 \<and>
   obj_get venture0 ''_id'' = JStr ''650000000000000000000001'' \<and>
   spec_violated_fields lib0 (form_data bad_req0 (JStr ''650000000000000000000001'')) =
     [''couponTitle'', ''offerDescription'', ''expiryDate'', ''claimPercentage''] \<and>
   createCoupon lib0 1893542400000 ''65a000000000000000000002'' [coupon0] bad_req0 =
     (Inl (ApiError 400 ''Validation error''
        [label ''couponTitle'' @ '' is not allowed to be empty'',
         label ''offerDescription'' @ '' is required'',
         label ''expiryDate'' @ '' must be a valid date'',
         label ''claimPercentage'' @ '' must be less than or equal to 100'']), [coupon0]) \<and>
   map message_field
        [label ''couponTitle'' @ '' is not allowed to be empty'',
         label ''offerDescription'' @ '' is required'',
         label ''expiryDate'' @ '' must be a valid date'',
         label ''claimPercentage'' @ '' must be less than or equal to 100''] =
     [''couponTitle'', ''offerDescription'', ''expiryDate'', ''claimPercentage''] \<and>
   spec_violated_fields lib0
       (form_data (req0\<lparr>venture := Some venture0\<rparr>) (JStr ''650000000000000000000001'')) =
     [''couponTitle'', ''offerTitle'', ''offerDescription'', ''termsAndConditions'', ''expiryDate''] \<and>
   createCoupon lib0 1893542400000 ''65a000000000000000000001'' [] (req0\<lparr>venture := Some venture0\<rparr>) =
     (Inl (ApiError 400 ''Validation error''
        [label ''couponTitle'' @ '' is required'',
         label ''offerTitle'' @ '' is required'',
         label ''offerDescription'' @ '' is required'',
         label ''termsAndConditions'' @ '' is required'',
         label ''expiryDate'' @ '' is required'']), []) \<and>
   map message_field
        [label ''couponTitle'' @ '' is required'',
         label ''offerTitle'' @ '' is required'',
         label ''offerDescription'' @ '' is required'',
         label ''termsAndConditions'' @ '' is required'',
         label ''expiryDate'' @ '' is required''] =
     [''couponTitle'', ''offerTitle'', ''offerDescription'', ''termsAndConditions'', ''expiryDate'']"
proof -
  let ?vid = "''650000000000000000000001''"
  let ?r = "req0\<lparr>venture := Some venture0\<rparr>"
  have a: "venture bad_req0 = Some venture0" by (simp add: bad_req0_def)
  have a': "venture ?r = Some venture0" by simp
  have b: "obj_get venture0 ''_id'' = JStr ?vid" by (simp add: venture0_def)
  have c: "spec_violated_fields lib0 (form_data bad_req0 (JStr ?vid)) \<noteq> []"
    by (simp add: bad0_fields)
  have c': "spec_violated_fields lib0 (form_data ?r (JStr ?vid)) \<noteq> []"
    by (simp add: empty0_fields)
  from C7_create_reports_every_violated_field [OF a b c, of 1893542400000
      "''65a000000000000000000002''" "[coupon0]"]
  obtain msgs where "createCoupon lib0 1893542400000 ''65a000000000000000000002'' [coupon0] bad_req0 =
      (Inl (ApiError 400 ''Validation error'' msgs), [coupon0])"
    and m: "map message_field msgs = spec_violated_fields lib0 (form_data bad_req0 (JStr ?vid))"
    by blast
  then have "msgs = [label ''couponTitle'' @ '' is not allowed to be empty'',
         label ''offerDescription'' @ '' is required'',
         label ''expiryDate'' @ '' must be a valid date'',
         label ''claimPercentage'' @ '' must be less than or equal to 100'']"
    by (simp only: bad0 prod.inject sum.inject failure.inject)
  with m have d: "map message_field
        [label ''couponTitle'' @ '' is not allowed to be empty'',
         label ''offerDescription'' @ '' is required'',
         label ''expiryDate'' @ '' must be a valid date'',
         label ''claimPercentage'' @ '' must be less than or equal to 100''] =
     [''couponTitle'', ''offerDescription'', ''expiryDate'', ''claimPercentage'']"
    by (simp only: bad0_fields)
  from C7_create_reports_every_violated_field [OF a' b c', of 1893542400000
      "''65a000000000000000000001''" "[]"]
  obtain msgs' where "createCoupon lib0 1893542400000 ''65a000000000000000000001'' [] ?r =
      (Inl (ApiError 400 ''Validation error'' msgs'), [])"
    and m': "map message_field msgs' = spec_violated_fields lib0 (form_data ?r (JStr ?vid))"
    by blast
  then have "msgs' = [label ''couponTitle'' @ '' is required'',
         label ''offerTitle'' @ '' is required'',
         label ''offerDescription'' @ '' is required'',
         label ''termsAndConditions'' @ '' is required'',
         label ''expiryDate'' @ '' is required'']"
    by (simp only: empty0 prod.inject sum.inject failure.inject)
  with m' have d': "map message_field
        [label ''couponTitle'' @ '' is required'',
         label ''offerTitle'' @ '' is required'',
         label ''offerDescription'' @ '' is required'',
         label ''termsAndConditions'' @ '' is required'',
         label ''expiryDate'' @ '' is required''] =
     [''couponTitle'', ''offerTitle'', ''offerDescription'', ''termsAndConditions'', ''expiryDate'']"
    by (simp only: empty0_fields)
  from a a' b bad0_fields bad0 d empty0_fields empty0 d' show ?thesis by blast
qed

text \<open>
  Claim C8. When the claim percentage of the body, a number or a string Joi reads as a
  number, lies outside the interval from 0 to 100, \<open>createCoupon\<close> throws the
  validation error and the collection is unchanged.
\<close>

theorem C8_create_rejects_claim_percentage_out_of_range:
  assumes "venture req = Some v" and "obj_get v ''_id'' = JStr vid"
    and "obj_get (body req) ''claimPercentage'' = JNum r \<or>
           (\<exists>s. obj_get (body req) ''claimPercentage'' = JStr s \<and> toNumber L s = Some r)"
    and "r < 0 \<or> 100 < r"
  shows "\<exists>msgs. msgs \<noteq> [] \<and>
           createCoupon L now newId coupons req =
             (Inl (ApiError 400 ''Validation error'' msgs), coupons) \<and>
           snd (createCoupon L now newId coupons req) = coupons"
proof -
  let ?d = "form_data req (JStr vid)"
  have "obj_get ?d ''claimPercentage'' = obj_get (body req) ''claimPercentage''"
    by (simp add: form_data_def)
  with assms(3) have "obj_get ?d ''claimPercentage'' = JNum r \<or>
           (\<exists>s. obj_get ?d ''claimPercentage'' = JStr s \<and> toNumber L s = Some r)"
    by simp
  then have "spec_violated_fields L ?d \<noteq> []"
    using assms(4) by (rule claimPercentage_violates)
  then have "fst (joi_validate L couponSchema ?d) \<noteq> []"
    using couponSchema_messages [of L ?d] by auto
  from createCoupon_validation [OF assms(1,2) this] this show ?thesis by simp
qed

text \<open>Claim C8 at a request whose claim percentage is the string \<open>150\<close>.\<close>

theorem C8_create_rejects_claim_percentage_out_of_range_witness:
  "venture pct_req0 = Some venture0 \<and>
   obj_get venture0 ''_id'' = JStr ''650000000000000000000001'' \<and>
   obj_get (body pct_req0) ''claimPercentage'' = JStr ''150'' \<and>
   toNumber lib0 ''150'' = Some 150 \<and>
   (100::real) < 150 \<and>
   createCoupon lib0 1893542400000 ''65a000000000000000000002'' [coupon0] pct_req0 =
     (Inl (ApiError 400 ''Validation error''
        [label ''claimPercentage'' @ '' must be less than or equal to 100'']), [coupon0])"
proof -
  have a: "venture pct_req0 = Some venture0"
    by (simp add: pct_req0_def create_req0_def)
  have b: "obj_get venture0 ''_id'' = JStr ''650000000000000000000001''"
    by (simp add: venture0_def)
  have c: "obj_get (body pct_req0) ''claimPercentage'' = JStr ''150''"
    by (simp add: pct_req0_def)
  have d: "toNumber lib0 ''150'' = Some 150"
    by (simp add: lib0_def)
  have c': "obj_get (body pct_req0) ''claimPercentage'' = JNum 150 \<or>
        (\<exists>s. obj_get (body pct_req0) ''claimPercentage'' = JStr s \<and> toNumber lib0 s = Some 150)"
    using c d by simp
  have e: "(150::real) < 0 \<or> (100::real) < 150" by simp
  have f: "createCoupon lib0 1893542400000 ''65a000000000000000000002'' [coupon0] pct_req0 =
     (Inl (ApiError 400 ''Validation error''
        [label ''claimPercentage'' @ '' must be less than or equal to 100'']), [coupon0])"
    by (simp add: createCoupon_def form_data_def logo_of_def js_toString_def joi_validate_def validate_key_def
  coerce_def base_errors_def rule_errors_def couponSchema_def lib0_def req0_def
  venture0_def create_req0_def pct_req0_def Let_def trim_def js_spaces_def strip_leading.simps
  label_def obj_set_def show_nat_100)
  from C8_create_rejects_claim_percentage_out_of_range [OF a b c' e, of 1893542400000
      "''65a000000000000000000002''" "[coupon0]"] a b c d f
  show ?thesis by simp
qed

section \<open>Properties of the coupon lifecycle\<close>

lemma assign_defined_other:
  "k \<notin> fst ` set v \<Longrightarrow> obj_get (assign_defined v d) k = obj_get d k"
proof -
  have "\<And>d. k \<notin> fst ` set v \<Longrightarrow>
    obj_get (foldl (\<lambda>acc kv. if snd kv \<noteq> JUndefined then obj_set (fst kv) (snd kv) acc else acc) d v) k =
    obj_get d k"
    by (induction v) auto
  then show "k \<notin> fst ` set v \<Longrightarrow> obj_get (assign_defined v d) k = obj_get d k"
    by (simp add: assign_defined_def)
qed


lemma joi_validate_keys [simp]: "map fst (snd (joi_validate L S data)) = map fst data"
  by (simp add: joi_validate_def split: option.splits cong: map_cong)

lemma joi_validate_unknown:
  assumes "fst (joi_validate L S data) = []" and "\<not> allow_unknown S"
  shows "fst ` set data \<subseteq> key_name ` set (schema_keys S)"
proof -
  from assms have "filter (\<lambda>k. k \<notin> set (map key_name (schema_keys S))) (map fst data) = []"
    by (simp add: joi_validate_def)
  then show ?thesis
    by (auto simp: filter_empty_conv)
qed

lemma edit_no_unknown: "\<not> allow_unknown editCouponSchema"
  by (simp add: editCouponSchema_def)

lemma replace_by_id_keeps:
  assumes "find (\<lambda>x. obj_get x ''_id'' = i) xs = Some e" and "f d = f e"
  shows "map f (replace_by_id i d xs) = map f xs"
  using assms by (induction xs) (auto split: if_splits)

lemma findById_Some:
  "findById L coll v = Inr (Some e) \<Longrightarrow> find (\<lambda>x. obj_get x ''_id'' = v) coll = Some e"
  by (auto simp: findById_def split: jsval.splits if_splits)


text \<open>An edit leaves every property outside the edit schema as it was, document by document.\<close>

lemma editCoupon_keeps:
  assumes "set ks \<inter> key_name ` set (schema_keys editCouponSchema) = {}"
  shows "map (\<lambda>d. map (obj_get d) ks) (snd (editCoupon L coupons req)) =
         map (\<lambda>d. map (obj_get d) ks) coupons"
proof (cases "findById L coupons (JStr (params_id req))")
  case (Inl e)
  then show ?thesis by (simp add: editCoupon_def)
next
  case (Inr r)
  show ?thesis
  proof (cases r)
    case None
    with Inr show ?thesis by (simp add: editCoupon_def)
  next
    case (Some e)
    define data where "data = obj_set ''logo'' (logo_of req (obj_get e ''logo'')) (body req)"
    define res where "res = joi_validate L editCouponSchema data"
    have found: "find (\<lambda>x. obj_get x ''_id'' = JStr (params_id req)) coupons = Some e"
      using Inr Some by (simp add: findById_Some)
    show ?thesis
    proof (cases "fst res = []")
      case False
      with Inr Some show ?thesis by (simp add: editCoupon_def Let_def res_def data_def)
    next
      case True
      then have "fst ` set data \<subseteq> key_name ` set (schema_keys editCouponSchema)"
        unfolding res_def using edit_no_unknown by (rule joi_validate_unknown)
      with assms have "set ks \<inter> fst ` set data = {}" by blast
      then have "\<And>k. k \<in> set ks \<Longrightarrow> k \<notin> fst ` set (snd res)"
        using joi_validate_keys [of L editCouponSchema data] by (metis res_def set_map disjoint_iff)
      then have same: "map (obj_get (assign_defined (snd res) e)) ks = map (obj_get e) ks"
        by (simp add: assign_defined_other)
      show ?thesis
        using Inr Some True replace_by_id_keeps [OF found, of "\<lambda>d. map (obj_get d) ks", OF same]
        by (simp add: editCoupon_def Let_def res_def [symmetric] data_def [symmetric])
    qed
  qed
qed


lemma displayCoupons_store [simp]: "snd (displayCoupons now cs) = autoExpire now cs"
  by (simp add: displayCoupons_def Let_def)











lemma set_insert_desc [simp]: "set (insert_desc k d xs) = insert d (set xs)"
  by (induction xs) auto

lemma set_sort_desc [simp]: "set (sort_desc k xs) = set xs"
  by (induction xs) (simp_all add: sort_desc_def)

lemma autoExpire_length [simp]: "length (autoExpire now cs) = length cs"
  by (simp add: autoExpire_def)

lemma autoExpire_nth:
  "i < length cs \<Longrightarrow> \<not> sweep_match now (cs ! i) \<Longrightarrow> autoExpire now cs ! i = cs ! i"
  by (simp add: autoExpire_def)

lemma status_not_edit_key:
  "set [''status''] \<inter> key_name ` set (schema_keys editCouponSchema) = {}"
  by (simp add: editCouponSchema_def)

text \<open>\<open>displayCoupons\<close> sweeps: after it no document of the collection matches the sweep.\<close>

lemma displayCoupons_sweeps:
  "list_all (\<lambda>d. \<not> sweep_match now d) (snd (displayCoupons now cs))"
  by (auto simp: autoExpire_def list_all_iff sweep_match_def)





text \<open>
  Claim C3 does not hold of the code. The coupon of the sample data is created past its
  expiry date with status \<open>active\<close>; \<open>displayActiveCoupons\<close> and \<open>displayExpiredCoupons\<close> run
  no sweep, so the first lists the lapsed coupon and the second does not. Only
  \<open>displayCoupons\<close> sweeps.
\<close>

theorem C3_active_listing_keeps_lapsed_coupon:
  "createCoupon lib0 1893542400000 ''65a000000000000000000001'' [] create_req0 =
     (Inr (ApiResponse 201 coupon0 ''Coupon created successfully''), [coupon0]) \<and>
   sweep_match 1893542460000 coupon0 \<and>
   displayActiveCoupons [coupon0] =
     (Inr (ApiResponse 200 \<lparr>listed_count = 1, listed = [format_status coupon0]\<rparr>
            ''Active coupons fetched successfully.''), [coupon0]) \<and>
   displayExpiredCoupons [coupon0] =
     (Inr (ApiResponse 200 \<lparr>listed_count = 0, listed = []\<rparr>
            ''Expired coupons fetched successfully.''), [coupon0]) \<and>
   snd (displayCoupons 1893542460000 [coupon0]) = [expired0]"
  by (simp add: create0)
     (simp add: sweep_match_def displayActiveCoupons_def displayExpiredCoupons_def find_status_def
       sort_desc_def coupon0_def expired0_def autoExpire_def obj_set_def)

text \<open>
  Claim C6. A coupon whose status is \<open>deleted\<close> or \<open>rejected\<close> (the document at a
  position \<open>i\<close> of the collection) is not matched by the auto-expiry sweep, which
  \<open>displayCoupons\<close> runs, and is the same document after it; the edit schema has no key
  \<open>status\<close> and admits no unknown key, and after any call of \<open>editCoupon\<close> the document
  at that position has the status it had.
\<close>

theorem C6_deleted_and_rejected_are_terminal:
  assumes "i < length coupons"
    and "obj_get (coupons ! i) ''status'' = JStr ''deleted'' \<or>
         obj_get (coupons ! i) ''status'' = JStr ''rejected''"
  shows "\<not> sweep_match now (coupons ! i) \<and>
         length (snd (displayCoupons now coupons)) = length coupons \<and>
         snd (displayCoupons now coupons) ! i = coupons ! i \<and>
         ''status'' \<notin> key_name ` set (schema_keys editCouponSchema) \<and>
         \<not> allow_unknown editCouponSchema \<and>
         length (snd (editCoupon L coupons req)) = length coupons \<and>
         obj_get (snd (editCoupon L coupons req) ! i) ''status'' = obj_get (coupons ! i) ''status''"
proof -
  from assms(2) have ns: "\<not> sweep_match now (coupons ! i)"
    by (auto simp: sweep_match_def)
  have m: "map (\<lambda>d. map (obj_get d) [''status'']) (snd (editCoupon L coupons req)) =
           map (\<lambda>d. map (obj_get d) [''status'']) coupons"
    using status_not_edit_key by (rule editCoupon_keeps)
  then have len: "length (snd (editCoupon L coupons req)) = length coupons"
    by (rule map_eq_imp_length_eq)
  from m have "map (\<lambda>d. map (obj_get d) [''status'']) (snd (editCoupon L coupons req)) ! i =
           map (\<lambda>d. map (obj_get d) [''status'']) coupons ! i" by simp
  with len assms(1)
  have "obj_get (snd (editCoupon L coupons req) ! i) ''status'' = obj_get (coupons ! i) ''status''"
    by simp
  with ns len assms(1) status_not_edit_key show ?thesis
    by (simp add: autoExpire_nth edit_no_unknown)
qed

text \<open>Claim C6 at a deleted coupon past its expiry date, swept and then edited.\<close>

theorem C6_deleted_and_rejected_are_terminal_witness:
  "(0::nat) < length [deleted0] \<and>
   obj_get ([deleted0] ! 0) ''status'' = JStr ''deleted'' \<and>
   snd (displayCoupons 1893542460000 [deleted0]) ! 0 = deleted0 \<and>
   obj_get (snd (editCoupon lib0 [deleted0]
       (req0\<lparr>params_id := ''65a000000000000000000001'',
              body := [(''offerTitle'', JStr ''30% off'')]\<rparr>)) ! 0) ''status'' = JStr ''deleted''"
proof -
  have a: "(0::nat) < length [deleted0]" by simp
  have b: "obj_get ([deleted0] ! 0) ''status'' = JStr ''deleted'' \<or>
           obj_get ([deleted0] ! 0) ''status'' = JStr ''rejected''"
    by (simp add: deleted0_def)
  have c: "obj_get ([deleted0] ! 0) ''status'' = JStr ''deleted''"
    by (simp add: deleted0_def)
  from C6_deleted_and_rejected_are_terminal [OF a b, of 1893542460000 lib0
      "req0\<lparr>params_id := ''65a000000000000000000001'', body := [(''offerTitle'', JStr ''30% off'')]\<rparr>"] c
  show ?thesis by simp
qed




section \<open>Properties of the advertisement analytics\<close>

lemma group_add_keys:
  "map fst (group_add d u gs) = (if d \<in> fst ` set gs then map fst gs else map fst gs @ [d])"
  by (induction gs) (force simp: image_iff)+

lemma group_add_entry:
  assumes "g \<in> set (group_add d u gs)" and "distinct (map fst gs)"
  shows "(fst g \<noteq> d \<and> g \<in> set gs) \<or>
         (\<exists>n us. (d, n, us) \<in> set gs \<and> g = (d, Suc n, List.insert u us)) \<or>
         (d \<notin> fst ` set gs \<and> g = (d, 1, [u]))"
  using assms
proof (induction gs)
  case Nil
  then show ?case by simp
next
  case (Cons a gs)
  obtain d' n us where a: "a = (d', n, us)" by (cases a)
  show ?case
  proof (cases "d' = d")
    case True
    with Cons.prems a show ?thesis by (auto simp: rev_image_eqI)
  next
    case False
    with Cons a show ?thesis by (auto)
  qed
qed

lemma group_ok_step:
  assumes "group_ok L vs gs"
  shows "group_ok L (vs @ [v]) (group_add (day_of L v) (userId v) gs)"
proof -
  let ?d = "day_of L v" and ?u = "userId v"
  let ?gs' = "group_add ?d ?u gs"
  from assms have dist: "distinct (map fst gs)" and keys: "set (map fst gs) = day_of L ` set vs"
    and ent: "\<And>g. g \<in> set gs \<Longrightarrow> fst (snd g) = length (filter (\<lambda>v. day_of L v = fst g) vs) \<and>
                     distinct (snd (snd g)) \<and>
                     set (snd (snd g)) = userId ` {v \<in> set vs. day_of L v = fst g}"
    by (auto simp: group_ok_def list_all_iff)
  have d': "distinct (map fst ?gs')"
    using dist by (auto simp: group_add_keys)
  have k': "set (map fst ?gs') = day_of L ` set (vs @ [v])"
    using keys by (auto simp: group_add_keys)
  have e': "fst (snd g) = length (filter (\<lambda>w. day_of L w = fst g) (vs @ [v])) \<and>
            distinct (snd (snd g)) \<and>
            set (snd (snd g)) = userId ` {w \<in> set (vs @ [v]). day_of L w = fst g}"
    if "g \<in> set ?gs'" for g
  proof -
    from group_add_entry [OF that dist]
    consider (old) "fst g \<noteq> ?d" "g \<in> set gs"
      | (upd) n us where "(?d, n, us) \<in> set gs" "g = (?d, Suc n, List.insert ?u us)"
      | (new) "?d \<notin> fst ` set gs" "g = (?d, 1, [?u])"
      by blast
    then show ?thesis
    proof cases
      case old
      with ent [of g] show ?thesis by auto
    next
      case upd
      with ent [of "(?d, n, us)"] show ?thesis by auto
    next
      case new
      with keys have "?d \<notin> day_of L ` set vs" by simp
      then have nv: "day_of L w \<noteq> ?d" if "w \<in> set vs" for w
        using that by (metis imageI)
      then have "filter (\<lambda>w. day_of L w = ?d) vs = []"
        by (simp add: filter_empty_conv)
      moreover from nv have "{w \<in> set vs. day_of L w = ?d} = {}"
        by blast
      ultimately show ?thesis using new by auto
    qed
  qed
  from d' k' e' show ?thesis
    unfolding group_ok_def list_all_iff by blast
qed

lemma group_by_day_ok: "group_ok L vs (group_by_day L vs)"
proof (induction vs rule: rev_induct)
  case Nil
  then show ?case by (simp add: group_ok_def group_by_day_def)
next
  case (snoc v vs)
  from group_ok_step [OF snoc, of v] show ?case
    by (simp add: group_by_day_def day_of_def)
qed

lemma project_group:
  assumes "group_ok L vs gs"
  shows "map project_day gs = map (stats_of L vs) (map fst gs)"
proof -
  have "project_day g = stats_of L vs (fst g)" if "g \<in> set gs" for g
  proof -
    from assms that have "fst (snd g) = length (filter (\<lambda>v. day_of L v = fst g) vs)"
      "distinct (snd (snd g))" "set (snd (snd g)) = userId ` {v \<in> set vs. day_of L v = fst g}"
      by (auto simp: group_ok_def list_all_iff)
    then show ?thesis
      by (simp add: project_day_def stats_of_def distinct_card [symmetric])
  qed
  then show ?thesis by simp
qed

lemma set_insert_by_date [simp]: "set (insert_by_date x ys) = insert x (set ys)"
  by (induction ys) auto

lemma sort_by_date_desc_simps [simp]:
  "sort_by_date_desc [] = []"
  "sort_by_date_desc (x # xs) = insert_by_date x (sort_by_date_desc xs)"
  by (simp_all add: sort_by_date_desc_def)

lemma set_sort_by_date [simp]: "set (sort_by_date_desc xs) = set xs"
  by (induction xs) simp_all

lemma distinct_insert_by_date [simp]:
  "distinct (map date (insert_by_date x ys)) = (date x \<notin> date ` set ys \<and> distinct (map date ys))"
  by (induction ys) auto

lemma distinct_sort_by_date [simp]:
  "distinct (map date (sort_by_date_desc xs)) = distinct (map date xs)"
  by (induction xs) simp_all

lemma sorted_insert_by_date:
  "sorted_wrt (\<lambda>a b. date b \<le> date a) ys \<Longrightarrow>
   sorted_wrt (\<lambda>a b. date b \<le> date a) (insert_by_date x ys)"
  by (induction ys) (auto)

lemma sorted_sort_by_date: "sorted_wrt (\<lambda>a b. date b \<le> date a) (sort_by_date_desc xs)"
  by (induction xs) (simp_all add: sorted_insert_by_date)

lemma sort_by_date_dates:
  assumes "distinct (map date xs)"
  shows "map date (sort_by_date_desc xs) = rev (sorted_list_of_set (date ` set xs))"
proof -
  let ?ys = "map date (sort_by_date_desc xs)"
  have "sorted_wrt (\<lambda>a b. b \<le> a) ?ys"
    using sorted_sort_by_date [of xs] by (simp add: sorted_wrt_map)
  then have "sorted (rev ?ys)" by (simp add: sorted_wrt_rev)
  moreover have "distinct (rev ?ys)" using assms by simp
  moreover have "set (rev ?ys) = date ` set xs" by simp
  ultimately have "rev ?ys = sorted_list_of_set (date ` set xs)"
    by (metis sorted_list_of_set.idem_if_sorted_distinct)
  then show ?thesis by (metis rev_rev_ident)
qed

lemma sort_stats:
  assumes "distinct ks"
  shows "sort_by_date_desc (map (stats_of L vs) ks) =
         map (stats_of L vs) (rev (sorted_list_of_set (set ks)))"
proof -
  let ?xs = "map (stats_of L vs) ks"
  let ?ys = "sort_by_date_desc ?xs"
  have md: "map date ?xs = ks" by (simp add: stats_of_def comp_def)
  have "stats_of L vs (date y) = y" if "y \<in> set ?ys" for y
    using that by (auto simp: stats_of_def)
  then have "map (\<lambda>y. stats_of L vs (date y)) ?ys = ?ys"
    by (rule map_idI)
  then have "?ys = map (stats_of L vs) (map date ?ys)"
    by (simp add: comp_def)
  also have "map date ?ys = rev (sorted_list_of_set (date ` set ?xs))"
    using assms md by (intro sort_by_date_dates) simp
  also have "date ` set ?xs = set ks"
    using md by (metis set_map)
  finally show ?thesis .
qed

lemma analytics_eq:
  "analytics L ads =
     ApiResponse 200
       (map (stats_of L (unwind_viewers ads))
            (rev (sorted_list_of_set (day_of L ` set (unwind_viewers ads)))))
       ''Day-wise analytics data''"
proof -
  let ?vs = "unwind_viewers ads"
  let ?G = "group_by_day L ?vs"
  have ok: "group_ok L ?vs ?G" by (rule group_by_day_ok)
  then have d: "distinct (map fst ?G)" and k: "set (map fst ?G) = day_of L ` set ?vs"
    by (simp_all add: group_ok_def)
  have "sort_by_date_desc (map project_day ?G) =
        sort_by_date_desc (map (stats_of L ?vs) (map fst ?G))"
    by (simp only: project_group [OF ok])
  also have "\<dots> = map (stats_of L ?vs) (rev (sorted_list_of_set (set (map fst ?G))))"
    using d by (rule sort_stats)
  finally show ?thesis
    by (simp only: analytics_def k)
qed

lemma analytics_example:
  assumes "a \<noteq> b" and "dateToString L t1 = day1" and "dateToString L t2 = day1"
    and "dateToString L t3 = day2" and "day1 < day2"
  shows "analytics L [\<lparr>ad_doc = doc, viewers =
            [\<lparr>userId = a, viewedAt = t1\<rparr>, \<lparr>userId = b, viewedAt = t2\<rparr>,
             \<lparr>userId = a, viewedAt = t3\<rparr>]\<rparr>] =
         ApiResponse 200
           [\<lparr>date = day2, totalViews = 1, uniqueUsersCount = 1\<rparr>,
            \<lparr>date = day1, totalViews = 2, uniqueUsersCount = 2\<rparr>]
           ''Day-wise analytics data''"
  using assms
  by (auto simp: analytics_def unwind_viewers_def group_by_day_def project_day_def)

text \<open>
  Claim C9. \<open>analytics\<close> flattens the viewer logs of all advertisements, groups the
  entries by the day string of their timestamp and answers, for each day, the number of
  views and the number of distinct users, the days in descending order; on the log of the
  example, two users on one day and one of them on a later day, it answers the later day
  with one view and one user, then the earlier day with two views and two users.
\<close>

theorem C9_analytics_counts_views_and_users_per_day:
  "analytics L ads =
     ApiResponse 200
       (map (stats_of L (concat (map viewers ads)))
            (rev (sorted_list_of_set (day_of L ` set (concat (map viewers ads))))))
       ''Day-wise analytics data'' \<and>
   (a \<noteq> b \<and> dateToString L t1 = day1 \<and> dateToString L t2 = day1 \<and>
    dateToString L t3 = day2 \<and> day1 < day2 \<longrightarrow>
    analytics L [\<lparr>ad_doc = doc, viewers =
            [\<lparr>userId = a, viewedAt = t1\<rparr>, \<lparr>userId = b, viewedAt = t2\<rparr>,
             \<lparr>userId = a, viewedAt = t3\<rparr>]\<rparr>] =
      ApiResponse 200
        [\<lparr>date = day2, totalViews = 1, uniqueUsersCount = 1\<rparr>,
         \<lparr>date = day1, totalViews = 2, uniqueUsersCount = 2\<rparr>]
        ''Day-wise analytics data'')"
  using analytics_eq [of L ads] analytics_example [of a b L t1 day1 t2 t3 day2 doc]
  unfolding unwind_viewers_def by blast

text \<open>
  Claim C9 at the log of the example, with two days of January 1970, once in one
  advertisement and once spread over the two advertisements of the sample data.
\<close>

theorem C9_analytics_counts_views_and_users_per_day_witness:
  "''userA'' \<noteq> ''userB'' \<and> dateToString lib0 1000 = ''1970-01-01'' \<and>
   dateToString lib0 2000 = ''1970-01-01'' \<and> dateToString lib0 86401000 = ''1970-01-02'' \<and>
   ''1970-01-01'' < ''1970-01-02'' \<and>
   analytics lib0 [\<lparr>ad_doc = [], viewers =
            [\<lparr>userId = ''userA'', viewedAt = 1000\<rparr>, \<lparr>userId = ''userB'', viewedAt = 2000\<rparr>,
             \<lparr>userId = ''userA'', viewedAt = 86401000\<rparr>]\<rparr>] =
      ApiResponse 200
        [\<lparr>date = ''1970-01-02'', totalViews = 1, uniqueUsersCount = 1\<rparr>,
         \<lparr>date = ''1970-01-01'', totalViews = 2, uniqueUsersCount = 2\<rparr>]
        ''Day-wise analytics data'' \<and>
   concat (map viewers ads0) =
     [\<lparr>userId = ''userA'', viewedAt = 1000\<rparr>, \<lparr>userId = ''userB'', viewedAt = 2000\<rparr>,
      \<lparr>userId = ''userA'', viewedAt = 86401000\<rparr>] \<and>
   analytics lib0 ads0 =
      ApiResponse 200
        [\<lparr>date = ''1970-01-02'', totalViews = 1, uniqueUsersCount = 1\<rparr>,
         \<lparr>date = ''1970-01-01'', totalViews = 2, uniqueUsersCount = 2\<rparr>]
        ''Day-wise analytics data''"
proof -
  have a: "''userA'' \<noteq> ''userB''" by simp
  have b: "dateToString lib0 1000 = ''1970-01-01''" "dateToString lib0 2000 = ''1970-01-01''"
    "dateToString lib0 86401000 = ''1970-01-02''"
    by (simp_all add: lib0_def)
  have c: "''1970-01-01'' < ''1970-01-02''" by (simp add: less_char_def)
  have v: "concat (map viewers ads0) =
     [\<lparr>userId = ''userA'', viewedAt = 1000\<rparr>, \<lparr>userId = ''userB'', viewedAt = 2000\<rparr>,
      \<lparr>userId = ''userA'', viewedAt = 86401000\<rparr>]"
    by (simp add: ads0_def)
  let ?log = "[\<lparr>userId = ''userA'', viewedAt = 1000\<rparr>, \<lparr>userId = ''userB'', viewedAt = 2000\<rparr>,
      \<lparr>userId = ''userA'', viewedAt = 86401000\<rparr>]"
  let ?one = "[\<lparr>ad_doc = [], viewers = ?log\<rparr>]"
  note inst = C9_analytics_counts_views_and_users_per_day [of lib0 _ "''userA''" "''userB''" 1000
      "''1970-01-01''" 2000 86401000 "''1970-01-02''" "[]"]
  have s: "concat (map viewers ?one) = ?log" by simp
  have e1: "analytics lib0 ?one =
      ApiResponse 200
        [\<lparr>date = ''1970-01-02'', totalViews = 1, uniqueUsersCount = 1\<rparr>,
         \<lparr>date = ''1970-01-01'', totalViews = 2, uniqueUsersCount = 2\<rparr>]
        ''Day-wise analytics data''"
    using inst [of ?one] a b c by blast
  have e2: "analytics lib0 ?one =
      ApiResponse 200 (map (stats_of lib0 ?log) (rev (sorted_list_of_set (day_of lib0 ` set ?log))))
        ''Day-wise analytics data''"
    using inst [of ?one] unfolding s by blast
  have e3: "analytics lib0 ads0 =
      ApiResponse 200 (map (stats_of lib0 ?log) (rev (sorted_list_of_set (day_of lib0 ` set ?log))))
        ''Day-wise analytics data''"
    using inst [of ads0] unfolding v by blast
  have e4: "analytics lib0 ads0 =
      ApiResponse 200
        [\<lparr>date = ''1970-01-02'', totalViews = 1, uniqueUsersCount = 1\<rparr>,
         \<lparr>date = ''1970-01-01'', totalViews = 2, uniqueUsersCount = 2\<rparr>]
        ''Day-wise analytics data''"
    by (rule trans [OF e3 trans [OF e2 [symmetric] e1]])
  from a b c e1 v e4 show ?thesis by blast
qed

end
